theory Spec2Isabelle
  imports Main "HOL-Library.Word"
begin

unbundle bit_operations_syntax

section \<open>The world OpenSSL.cpp runs in\<close>

text \<open>
  \<^verbatim>\<open>src/OpenSSL.cpp\<close> has two static attributes, \<^verbatim>\<open>OpenSSL::mutexes\<close> and
  \<^verbatim>\<open>OpenSSL::numMutexes\<close>, and seven static methods, six of them modelled here
  (\<^verbatim>\<open>SetThreadId\<close> only forwards \<^verbatim>\<open>pthread_self()\<close> to OpenSSL). Everything the methods
  do is a call into the C++ heap (\<^verbatim>\<open>new\<close>, \<^verbatim>\<open>delete\<close>), into pthreads, into OpenSSL or
  into the logger. The model threads one record, \<open>world\<close>, through the code: the two static
  attributes, the C++ heap, the callback pointers OpenSSL currently holds, the list of
  calls made so far (oldest first) and the lines logged so far.

  A pointer is a natural number, \<open>0\<close> being \<^verbatim>\<open>nullptr\<close>. A heap block is a list of
  mutexes together with the form of \<^verbatim>\<open>new\<close> that made it: \<^verbatim>\<open>new pthread_mutex_t[n]\<close>
  gives \<open>n\<close> mutexes, \<^verbatim>\<open>new CRYPTO_dynlock_value\<close> gives the one mutex of the struct
  (its field \<^verbatim>\<open>mutex\<close>, at index 0). The address \<^verbatim>\<open>&p[i]\<close> is the pair \<open>(p, i)\<close>.
\<close>

type_synonym addr = nat
type_synonym loc = "addr \<times> int"

definition nullptr :: addr where
  "nullptr = 0"

datatype mutex_state = Uninitialized | Idle | Locked | Destroyed

datatype alloc_kind = Array_new | Scalar_new

type_synonym block = "alloc_kind \<times> mutex_state list"

datatype callback_fn =
    Fn_SetThreadId
  | Fn_LockingFunction
  | Fn_DynCreateFunction
  | Fn_DynLockFunction
  | Fn_DynDestroyFunction

datatype event =
    Call_SSL_load_error_strings
  | Call_SSL_library_init
  | Call_RAND_poll
  | Call_new_array int addr
  | Call_new_dynlock addr
  | Call_delete_array addr
  | Call_delete addr
  | Call_pthread_mutex_init loc
  | Call_pthread_mutex_destroy loc
  | Call_pthread_mutex_lock loc
  | Call_pthread_mutex_unlock loc
  | Call_ERR_remove_thread_state
  | Call_ENGINE_cleanup
  | Call_ERR_free_strings
  | Call_EVP_cleanup
  | Call_CRYPTO_cleanup_all_ex_data
  | Call_SSL_COMP_get_compression_methods
  | Call_sk_SSL_COMP_free
  | Call_CRYPTO_THREADID_set_callback "callback_fn option"
  | Call_CRYPTO_set_locking_callback "callback_fn option"
  | Call_CRYPTO_set_dynlock_create_callback "callback_fn option"
  | Call_CRYPTO_set_dynlock_lock_callback "callback_fn option"
  | Call_CRYPTO_set_dynlock_destroy_callback "callback_fn option"

datatype log_entry = Log_debug string | Log_error string int

record world =
  mutexes :: addr
  numMutexes :: int
  heap :: "addr \<rightharpoonup> block"
  threadid_callback :: "callback_fn option"
  locking_callback :: "callback_fn option"
  dynlock_create_callback :: "callback_fn option"
  dynlock_lock_callback :: "callback_fn option"
  dynlock_destroy_callback :: "callback_fn option"
  calls :: "event list"
  logged :: "log_entry list"

text \<open>
  What the code cannot decide is an input of the model: the number \<^verbatim>\<open>CRYPTO_num_locks()\<close>
  answers (OpenSSL answers the same constant at every call), the address \<^verbatim>\<open>new\<close>
  hands out (\<open>nullptr\<close> stands for an allocation that finds no memory: \<^verbatim>\<open>new\<close> then
  throws and hands out nothing), and the return codes of \<^verbatim>\<open>pthread_mutex_init\<close> and
  \<^verbatim>\<open>pthread_mutex_destroy\<close> on each mutex.
\<close>

record env =
  CRYPTO_num_locks :: int
  new_result :: addr
  mutex_init_ret :: "loc \<Rightarrow> int"
  mutex_destroy_ret :: "loc \<Rightarrow> int"

text \<open>
  A run ends early with an \<open>error\<close> and the world at that moment. \<open>Thrown\<close> is the
  exception of \<^verbatim>\<open>MS_THROW_ERROR\<close>, \<open>Aborted\<close> the process abort of \<^verbatim>\<open>MS_ABORT\<close>,
  \<open>Bad_alloc\<close> and \<open>Bad_array_new_length\<close> the two exceptions of \<^verbatim>\<open>new\<close>.
  The other four are not raised by OpenSSL.cpp: they are what C++ and POSIX leave undefined
  (an access outside a live block, a \<^verbatim>\<open>delete\<close> of a pointer that is not a live block
  of that form, a mutex operation on a mutex in the wrong state) and a
  \<^verbatim>\<open>pthread_mutex_lock\<close> on a mutex that is held, which does not return in a run with
  one thread.
\<close>

datatype error =
    Thrown string "int list"
  | Aborted string
  | Bad_alloc
  | Bad_array_new_length
  | Out_of_bounds
  | Invalid_free
  | Mutex_misuse
  | Blocks

type_synonym 'a result = "(error \<times> world) + 'a"

section \<open>The logger\<close>

text \<open>
  Modelled from the spec: the macros of \<^verbatim>\<open>Logger.h\<close> and \<^verbatim>\<open>MediaSoupError.h\<close>,
  which are not part of the sources. \<^verbatim>\<open>MS_DEBUG\<close> and \<^verbatim>\<open>MS_ERROR\<close> write a line and
  return (``logged/reported but does not abort''), \<^verbatim>\<open>MS_THROW_ERROR\<close> leaves the
  function (``fails (aborts process startup)''), \<^verbatim>\<open>MS_ABORT\<close> ends the process (``a
  fatal/aborting condition''). \<^verbatim>\<open>MS_TRACE\<close> only logs the function's name and is left out.
\<close>

definition MS_DEBUG :: "string \<Rightarrow> world \<Rightarrow> world" where
  "MS_DEBUG msg w = w\<lparr>logged := logged w @ [Log_debug msg]\<rparr>"

definition MS_ERROR :: "string \<Rightarrow> int \<Rightarrow> world \<Rightarrow> world" where
  "MS_ERROR msg err w = w\<lparr>logged := logged w @ [Log_error msg err]\<rparr>"

definition MS_THROW_ERROR :: "string \<Rightarrow> int list \<Rightarrow> world \<Rightarrow> 'a result" where
  "MS_THROW_ERROR msg args w = Inl (Thrown msg args, w)"

definition MS_ABORT :: "string \<Rightarrow> world \<Rightarrow> 'a result" where
  "MS_ABORT msg w = Inl (Aborted msg, w)"

section \<open>The C++ heap\<close>

definition record_call :: "event \<Rightarrow> world \<Rightarrow> world" where
  "record_call e w = w\<lparr>calls := calls w @ [e]\<rparr>"

text \<open>
  \<^verbatim>\<open>new pthread_mutex_t[n]\<close>: a block of \<open>n\<close> mutexes that nobody has initialised.
  A negative length throws \<^verbatim>\<open>std::bad_array_new_length\<close>, an allocation that finds no
  memory throws \<^verbatim>\<open>std::bad_alloc\<close>; a \<^verbatim>\<open>new\<close> that returns has made a block.
\<close>

definition new_mutex_array :: "env \<Rightarrow> int \<Rightarrow> world \<Rightarrow> (addr \<times> world) result" where
  "new_mutex_array env n w =
     (if n < 0 then Inl (Bad_array_new_length, w)
      else if new_result env = nullptr then Inl (Bad_alloc, w)
      else Inr (new_result env,
            record_call (Call_new_array n (new_result env))
              (w\<lparr>heap := (heap w)(new_result env \<mapsto> (Array_new, replicate (nat n) Uninitialized))\<rparr>)))"

text \<open>\<^verbatim>\<open>new CRYPTO_dynlock_value\<close>: a struct holding one mutex.\<close>

definition new_dynlock_value :: "env \<Rightarrow> world \<Rightarrow> (addr \<times> world) result" where
  "new_dynlock_value env w =
     (if new_result env = nullptr then Inl (Bad_alloc, w)
      else Inr (new_result env,
            record_call (Call_new_dynlock (new_result env))
              (w\<lparr>heap := (heap w)(new_result env \<mapsto> (Scalar_new, [Uninitialized]))\<rparr>)))"

definition delete_array :: "addr \<Rightarrow> world \<Rightarrow> world result" where
  "delete_array p w =
     (case heap w p of
        Some (Array_new, ms) \<Rightarrow> Inr (record_call (Call_delete_array p) (w\<lparr>heap := (heap w)(p := None)\<rparr>))
      | _ \<Rightarrow> Inl (Invalid_free, w))"

definition delete_value :: "addr \<Rightarrow> world \<Rightarrow> world result" where
  "delete_value p w =
     (case heap w p of
        Some (Scalar_new, ms) \<Rightarrow> Inr (record_call (Call_delete p) (w\<lparr>heap := (heap w)(p := None)\<rparr>))
      | _ \<Rightarrow> Inl (Invalid_free, w))"

section \<open>pthread mutexes\<close>

definition mutex_at :: "world \<Rightarrow> loc \<Rightarrow> mutex_state option" where
  "mutex_at w l =
     (case heap w (fst l) of
        None \<Rightarrow> None
      | Some (k, ms) \<Rightarrow> if 0 \<le> snd l \<and> nat (snd l) < length ms then Some (ms ! nat (snd l)) else None)"

definition set_mutex :: "loc \<Rightarrow> mutex_state \<Rightarrow> world \<Rightarrow> world" where
  "set_mutex l s w =
     (case heap w (fst l) of
        None \<Rightarrow> w
      | Some (k, ms) \<Rightarrow> w\<lparr>heap := (heap w)(fst l \<mapsto> (k, ms[nat (snd l) := s]))\<rparr>)"

text \<open>
  The four pthread calls of the file, each on the address of one mutex. The call is
  recorded when the address is inside a live block. \<^verbatim>\<open>pthread_mutex_init\<close> and
  \<^verbatim>\<open>pthread_mutex_destroy\<close> answer the code the environment gives; a nonzero code
  leaves the mutex as it was.
\<close>

definition pthread_mutex_init :: "env \<Rightarrow> loc \<Rightarrow> world \<Rightarrow> (int \<times> world) result" where
  "pthread_mutex_init env l w =
     (case mutex_at w l of
        None \<Rightarrow> Inl (Out_of_bounds, w)
      | Some s \<Rightarrow>
          if s = Idle \<or> s = Locked then Inl (Mutex_misuse, record_call (Call_pthread_mutex_init l) w)
          else if mutex_init_ret env l = 0
          then Inr (0, set_mutex l Idle (record_call (Call_pthread_mutex_init l) w))
          else Inr (mutex_init_ret env l, record_call (Call_pthread_mutex_init l) w))"

definition pthread_mutex_destroy :: "env \<Rightarrow> loc \<Rightarrow> world \<Rightarrow> (int \<times> world) result" where
  "pthread_mutex_destroy env l w =
     (case mutex_at w l of
        None \<Rightarrow> Inl (Out_of_bounds, w)
      | Some s \<Rightarrow>
          if s \<noteq> Idle then Inl (Mutex_misuse, record_call (Call_pthread_mutex_destroy l) w)
          else if mutex_destroy_ret env l = 0
          then Inr (0, set_mutex l Destroyed (record_call (Call_pthread_mutex_destroy l) w))
          else Inr (mutex_destroy_ret env l, record_call (Call_pthread_mutex_destroy l) w))"

definition pthread_mutex_lock :: "loc \<Rightarrow> world \<Rightarrow> (int \<times> world) result" where
  "pthread_mutex_lock l w =
     (case mutex_at w l of
        None \<Rightarrow> Inl (Out_of_bounds, w)
      | Some Idle \<Rightarrow> Inr (0, set_mutex l Locked (record_call (Call_pthread_mutex_lock l) w))
      | Some Locked \<Rightarrow> Inl (Blocks, record_call (Call_pthread_mutex_lock l) w)
      | Some _ \<Rightarrow> Inl (Mutex_misuse, record_call (Call_pthread_mutex_lock l) w))"

definition pthread_mutex_unlock :: "loc \<Rightarrow> world \<Rightarrow> (int \<times> world) result" where
  "pthread_mutex_unlock l w =
     (case mutex_at w l of
        None \<Rightarrow> Inl (Out_of_bounds, w)
      | Some Locked \<Rightarrow> Inr (0, set_mutex l Idle (record_call (Call_pthread_mutex_unlock l) w))
      | Some _ \<Rightarrow> Inl (Mutex_misuse, record_call (Call_pthread_mutex_unlock l) w))"

text \<open>A call whose return value the code drops.\<close>

definition discard :: "(int \<times> world) result \<Rightarrow> world result" where
  "discard r = (case r of Inl e \<Rightarrow> Inl e | Inr (err, w) \<Rightarrow> Inr w)"

section \<open>The OpenSSL calls\<close>

text \<open>
  The setters store the pointer they are given in the library's slot, as the spec's
  ``register'' and ``deregister (set each to none)'' say.
\<close>

definition CRYPTO_THREADID_set_callback :: "callback_fn option \<Rightarrow> world \<Rightarrow> world" where
  "CRYPTO_THREADID_set_callback f w =
     record_call (Call_CRYPTO_THREADID_set_callback f) (w\<lparr>threadid_callback := f\<rparr>)"

definition CRYPTO_set_locking_callback :: "callback_fn option \<Rightarrow> world \<Rightarrow> world" where
  "CRYPTO_set_locking_callback f w =
     record_call (Call_CRYPTO_set_locking_callback f) (w\<lparr>locking_callback := f\<rparr>)"

definition CRYPTO_set_dynlock_create_callback :: "callback_fn option \<Rightarrow> world \<Rightarrow> world" where
  "CRYPTO_set_dynlock_create_callback f w =
     record_call (Call_CRYPTO_set_dynlock_create_callback f) (w\<lparr>dynlock_create_callback := f\<rparr>)"

definition CRYPTO_set_dynlock_lock_callback :: "callback_fn option \<Rightarrow> world \<Rightarrow> world" where
  "CRYPTO_set_dynlock_lock_callback f w =
     record_call (Call_CRYPTO_set_dynlock_lock_callback f) (w\<lparr>dynlock_lock_callback := f\<rparr>)"

definition CRYPTO_set_dynlock_destroy_callback :: "callback_fn option \<Rightarrow> world \<Rightarrow> world" where
  "CRYPTO_set_dynlock_destroy_callback f w =
     record_call (Call_CRYPTO_set_dynlock_destroy_callback f) (w\<lparr>dynlock_destroy_callback := f\<rparr>)"

text \<open>The mode bits, as the comment in \<^verbatim>\<open>LockingFunction\<close> lists them.\<close>

type_synonym cint = "32 word"

definition CRYPTO_LOCK :: cint where "CRYPTO_LOCK = 0x01"
definition CRYPTO_UNLOCK :: cint where "CRYPTO_UNLOCK = 0x02"
definition CRYPTO_READ :: cint where "CRYPTO_READ = 0x04"
definition CRYPTO_WRITE :: cint where "CRYPTO_WRITE = 0x08"

section \<open>OpenSSL::ClassInit\<close>

lemma pthread_mutex_init_numMutexes:
  "pthread_mutex_init env l w = Inr (err, w') \<Longrightarrow> numMutexes w' = numMutexes w"
  by (auto simp: pthread_mutex_init_def set_mutex_def record_call_def
      split: option.splits if_splits prod.splits)

lemma pthread_mutex_destroy_numMutexes:
  "pthread_mutex_destroy env l w = Inr (err, w') \<Longrightarrow> numMutexes w' = numMutexes w"
  by (auto simp: pthread_mutex_destroy_def set_mutex_def record_call_def
      split: option.splits if_splits prod.splits)

text \<open>
  \<^verbatim>\<open>for (int i=0; i<OpenSSL::numMutexes; i++)\<close> of \<^verbatim>\<open>ClassInit\<close>, from \<open>i\<close> on.
\<close>

function init_loop :: "env \<Rightarrow> int \<Rightarrow> world \<Rightarrow> world result" where
  "init_loop env i w =
     (if i < numMutexes w then
        (case pthread_mutex_init env (mutexes w, i) w of
           Inl e \<Rightarrow> Inl e
         | Inr (err, w') \<Rightarrow>
             if err \<noteq> 0
             then MS_THROW_ERROR ''pthread_mutex_init() failed with return code %d\<newline>'' [err] w'
             else init_loop env (i + 1) w')
      else Inr w)"
  by pat_completeness auto
termination
  by (relation "measure (\<lambda>(env, i, w). nat (numMutexes w - i))")
     (auto dest: pthread_mutex_init_numMutexes)

declare init_loop.simps [simp del]

text \<open>
  The test \<^verbatim>\<open>if (!OpenSSL::mutexes)\<close> of line 30 is kept as the source has it; it never
  fires, a \<^verbatim>\<open>new[]\<close> that returns being never null.
\<close>

definition ClassInit :: "env \<Rightarrow> world \<Rightarrow> world result" where
  "ClassInit env w0 =
     (let w1 = MS_DEBUG ''loaded openssl version: %s'' w0;
          w2 = record_call Call_SSL_load_error_strings w1;
          w3 = record_call Call_SSL_library_init w2;
          w4 = record_call Call_RAND_poll w3
      in case new_mutex_array env (CRYPTO_num_locks env) w4 of
           Inl e \<Rightarrow> Inl e
         | Inr (p, w5) \<Rightarrow>
             (let w6 = w5\<lparr>mutexes := p\<rparr>
              in if mutexes w6 = nullptr
                 then MS_THROW_ERROR ''allocation of mutexes failed'' [] w6
                 else
                   (case init_loop env 0 (w6\<lparr>numMutexes := CRYPTO_num_locks env\<rparr>) of
                      Inl e \<Rightarrow> Inl e
                    | Inr w7 \<Rightarrow>
                        Inr (CRYPTO_set_dynlock_destroy_callback (Some Fn_DynDestroyFunction)
                            (CRYPTO_set_dynlock_lock_callback (Some Fn_DynLockFunction)
                            (CRYPTO_set_dynlock_create_callback (Some Fn_DynCreateFunction)
                            (CRYPTO_set_locking_callback (Some Fn_LockingFunction)
                            (CRYPTO_THREADID_set_callback (Some Fn_SetThreadId) w7))))))))"

section \<open>OpenSSL::ClassDestroy\<close>

text \<open>
  \<^verbatim>\<open>for (int i=0; i<OpenSSL::numMutexes; i++)\<close> of \<^verbatim>\<open>ClassDestroy\<close>, from \<open>i\<close> on.
\<close>

function destroy_loop :: "env \<Rightarrow> int \<Rightarrow> world \<Rightarrow> world result" where
  "destroy_loop env i w =
     (if i < numMutexes w then
        (case pthread_mutex_destroy env (mutexes w, i) w of
           Inl e \<Rightarrow> Inl e
         | Inr (err, w') \<Rightarrow>
             if err \<noteq> 0
             then destroy_loop env (i + 1)
                    (MS_ERROR ''pthread_mutex_destroy() failed with return code %d\<newline>'' err w')
             else destroy_loop env (i + 1) w')
      else Inr w)"
  by pat_completeness auto
termination
  by (relation "measure (\<lambda>(env, i, w). nat (numMutexes w - i))")
     (auto dest: pthread_mutex_destroy_numMutexes simp: MS_ERROR_def)

declare destroy_loop.simps [simp del]

definition ClassDestroy :: "env \<Rightarrow> world \<Rightarrow> world result" where
  "ClassDestroy env w0 =
     (let w1 = MS_DEBUG ''unloading openssl'' w0;
          w2 = record_call Call_ERR_remove_thread_state w1;
          w3 = record_call Call_ENGINE_cleanup w2;
          w4 = record_call Call_ERR_free_strings w3;
          w5 = record_call Call_EVP_cleanup w4;
          w6 = record_call Call_CRYPTO_cleanup_all_ex_data w5;
          w7 = record_call Call_SSL_COMP_get_compression_methods w6;
          w8 = record_call Call_sk_SSL_COMP_free w7
      in case destroy_loop env 0 w8 of
           Inl e \<Rightarrow> Inl e
         | Inr w9 \<Rightarrow>
             (case (if mutexes w9 \<noteq> nullptr then delete_array (mutexes w9) w9 else Inr w9) of
                Inl e \<Rightarrow> Inl e
              | Inr w10 \<Rightarrow>
                  Inr (CRYPTO_set_dynlock_destroy_callback None
                      (CRYPTO_set_dynlock_lock_callback None
                      (CRYPTO_set_dynlock_create_callback None
                      (CRYPTO_set_locking_callback None
                      (CRYPTO_THREADID_set_callback None w10)))))))"

section \<open>The locking callbacks\<close>

definition LockingFunction :: "cint \<Rightarrow> int \<Rightarrow> world \<Rightarrow> world result" where
  "LockingFunction mode n w =
     (if mode AND CRYPTO_LOCK \<noteq> 0
      then discard (pthread_mutex_lock (mutexes w, n) w)
      else discard (pthread_mutex_unlock (mutexes w, n) w))"

text \<open>
  In \<^verbatim>\<open>DynCreateFunction\<close> the test \<^verbatim>\<open>if (!value)\<close> is kept as the source has it; it
  never fires, a \<^verbatim>\<open>new\<close> that returns being never null, and the \<^verbatim>\<open>return nullptr\<close>
  that follows \<^verbatim>\<open>MS_ABORT\<close> would not be reached either. The return codes of the
  pthread calls of the three dynamic callbacks are dropped, as in the source.
\<close>

definition DynCreateFunction :: "env \<Rightarrow> world \<Rightarrow> (addr \<times> world) result" where
  "DynCreateFunction env w0 =
     (case new_dynlock_value env w0 of
        Inl e \<Rightarrow> Inl e
      | Inr (v, w1) \<Rightarrow>
          if v = nullptr then MS_ABORT ''new CRYPTO_dynlock_value failed'' w1
          else
            (case discard (pthread_mutex_init env (v, 0) w1) of
               Inl e \<Rightarrow> Inl e
             | Inr w2 \<Rightarrow> Inr (v, w2)))"

definition DynLockFunction :: "cint \<Rightarrow> addr \<Rightarrow> world \<Rightarrow> world result" where
  "DynLockFunction mode v w =
     (if mode AND CRYPTO_LOCK \<noteq> 0
      then discard (pthread_mutex_lock (v, 0) w)
      else discard (pthread_mutex_unlock (v, 0) w))"

definition DynDestroyFunction :: "env \<Rightarrow> addr \<Rightarrow> world \<Rightarrow> world result" where
  "DynDestroyFunction env v w0 =
     (case discard (pthread_mutex_destroy env (v, 0) w0) of
        Inl e \<Rightarrow> Inl e
      | Inr w1 \<Rightarrow> delete_value v w1)"

text \<open>The process before \<^verbatim>\<open>ClassInit\<close>: the static attributes as they are declared.\<close>

definition initial_world :: world where
  "initial_world =
     \<lparr>mutexes = nullptr, numMutexes = 0, heap = Map.empty,
      threadid_callback = None, locking_callback = None, dynlock_create_callback = None,
      dynlock_lock_callback = None, dynlock_destroy_callback = None,
      calls = [], logged = []\<rparr>"

section \<open>What a run leaves behind\<close>

text \<open>
  Observations on a world and the worlds the two lifecycle methods end in, used to state
  the properties below.
\<close>

text \<open>The environments under which \<^verbatim>\<open>ClassInit\<close> returns, and the world it returns.\<close>

definition init_ok :: "env \<Rightarrow> bool" where
  "init_ok env \<longleftrightarrow> 0 \<le> CRYPTO_num_locks env \<and> new_result env \<noteq> nullptr \<and>
     (\<forall>j. 0 \<le> j \<and> j < CRYPTO_num_locks env \<longrightarrow> mutex_init_ret env (new_result env, j) = 0)"

definition world_after_init :: "env \<Rightarrow> world \<Rightarrow> world" where
  "world_after_init env w0 =
     w0\<lparr>mutexes := new_result env, numMutexes := CRYPTO_num_locks env,
        heap := (heap w0)(new_result env \<mapsto> (Array_new, replicate (nat (CRYPTO_num_locks env)) Idle)),
        threadid_callback := Some Fn_SetThreadId,
        locking_callback := Some Fn_LockingFunction,
        dynlock_create_callback := Some Fn_DynCreateFunction,
        dynlock_lock_callback := Some Fn_DynLockFunction,
        dynlock_destroy_callback := Some Fn_DynDestroyFunction,
        calls := calls w0 @
          [Call_SSL_load_error_strings, Call_SSL_library_init, Call_RAND_poll,
           Call_new_array (CRYPTO_num_locks env) (new_result env)] @
          map (\<lambda>j. Call_pthread_mutex_init (new_result env, j)) [0..CRYPTO_num_locks env - 1] @
          [Call_CRYPTO_THREADID_set_callback (Some Fn_SetThreadId),
           Call_CRYPTO_set_locking_callback (Some Fn_LockingFunction),
           Call_CRYPTO_set_dynlock_create_callback (Some Fn_DynCreateFunction),
           Call_CRYPTO_set_dynlock_lock_callback (Some Fn_DynLockFunction),
           Call_CRYPTO_set_dynlock_destroy_callback (Some Fn_DynDestroyFunction)],
        logged := logged w0 @ [Log_debug ''loaded openssl version: %s'']\<rparr>"

text \<open>The world at the head of the first loop, and the five registrations.\<close>

definition world_before_loop :: "env \<Rightarrow> world \<Rightarrow> world" where
  "world_before_loop env w0 =
     w0\<lparr>mutexes := new_result env, numMutexes := CRYPTO_num_locks env,
        heap := (heap w0)(new_result env \<mapsto>
                  (Array_new, replicate (nat (CRYPTO_num_locks env)) Uninitialized)),
        calls := calls w0 @
          [Call_SSL_load_error_strings, Call_SSL_library_init, Call_RAND_poll,
           Call_new_array (CRYPTO_num_locks env) (new_result env)],
        logged := logged w0 @ [Log_debug ''loaded openssl version: %s'']\<rparr>"

definition register_all :: "world \<Rightarrow> world" where
  "register_all w =
     CRYPTO_set_dynlock_destroy_callback (Some Fn_DynDestroyFunction)
       (CRYPTO_set_dynlock_lock_callback (Some Fn_DynLockFunction)
       (CRYPTO_set_dynlock_create_callback (Some Fn_DynCreateFunction)
       (CRYPTO_set_locking_callback (Some Fn_LockingFunction)
       (CRYPTO_THREADID_set_callback (Some Fn_SetThreadId) w))))"

text \<open>The five callback pointers OpenSSL holds, and the calls that set one.\<close>

definition registered :: "world \<Rightarrow> callback_fn option list" where
  "registered w = [threadid_callback w, locking_callback w, dynlock_create_callback w,
                   dynlock_lock_callback w, dynlock_destroy_callback w]"

fun is_registration :: "event \<Rightarrow> bool" where
  "is_registration (Call_CRYPTO_THREADID_set_callback f) = True"
| "is_registration (Call_CRYPTO_set_locking_callback f) = True"
| "is_registration (Call_CRYPTO_set_dynlock_create_callback f) = True"
| "is_registration (Call_CRYPTO_set_dynlock_lock_callback f) = True"
| "is_registration (Call_CRYPTO_set_dynlock_destroy_callback f) = True"
| "is_registration e = False"

text \<open>
  What the loop of \<^verbatim>\<open>ClassDestroy\<close> leaves in a slot and in the log, and the world
  \<^verbatim>\<open>ClassDestroy\<close> returns on a table whose slots are all initialised and free.
\<close>

definition destroyed_state :: "env \<Rightarrow> addr \<Rightarrow> int \<Rightarrow> mutex_state" where
  "destroyed_state env p j = (if mutex_destroy_ret env (p, j) = 0 then Destroyed else Idle)"

definition destroy_errors :: "env \<Rightarrow> addr \<Rightarrow> int list \<Rightarrow> log_entry list" where
  "destroy_errors env p js =
     map (\<lambda>j. Log_error ''pthread_mutex_destroy() failed with return code %d\<newline>''
                 (mutex_destroy_ret env (p, j)))
       (filter (\<lambda>j. mutex_destroy_ret env (p, j) \<noteq> 0) js)"

definition table_ready :: "world \<Rightarrow> bool" where
  "table_ready w \<longleftrightarrow> mutexes w \<noteq> nullptr \<and> 0 \<le> numMutexes w \<and>
     heap w (mutexes w) = Some (Array_new, replicate (nat (numMutexes w)) Idle)"

definition cleanup_calls :: "event list" where
  "cleanup_calls =
     [Call_ERR_remove_thread_state, Call_ENGINE_cleanup, Call_ERR_free_strings,
      Call_EVP_cleanup, Call_CRYPTO_cleanup_all_ex_data,
      Call_SSL_COMP_get_compression_methods, Call_sk_SSL_COMP_free]"

definition deregister_calls :: "event list" where
  "deregister_calls =
     [Call_CRYPTO_THREADID_set_callback None, Call_CRYPTO_set_locking_callback None,
      Call_CRYPTO_set_dynlock_create_callback None, Call_CRYPTO_set_dynlock_lock_callback None,
      Call_CRYPTO_set_dynlock_destroy_callback None]"

definition deregister_all :: "world \<Rightarrow> world" where
  "deregister_all w =
     CRYPTO_set_dynlock_destroy_callback None
       (CRYPTO_set_dynlock_lock_callback None
       (CRYPTO_set_dynlock_create_callback None
       (CRYPTO_set_locking_callback None
       (CRYPTO_THREADID_set_callback None w))))"

definition world_before_destroy_loop :: "world \<Rightarrow> world" where
  "world_before_destroy_loop w =
     w\<lparr>calls := calls w @ cleanup_calls, logged := logged w @ [Log_debug ''unloading openssl'']\<rparr>"

definition world_after_destroy :: "env \<Rightarrow> world \<Rightarrow> world" where
  "world_after_destroy env w =
     w\<lparr>heap := (heap w)(mutexes w := None),
       threadid_callback := None, locking_callback := None, dynlock_create_callback := None,
       dynlock_lock_callback := None, dynlock_destroy_callback := None,
       calls := calls w @ cleanup_calls @
          map (\<lambda>j. Call_pthread_mutex_destroy (mutexes w, j)) [0..numMutexes w - 1] @
          [Call_delete_array (mutexes w)] @ deregister_calls,
       logged := logged w @ [Log_debug ''unloading openssl''] @
          destroy_errors env (mutexes w) [0..numMutexes w - 1]\<rparr>"

text \<open>
  Concrete environments: three locks, the table at address 100, a dynamic lock at address
  200. The failing ones answer 12 (\<^verbatim>\<open>ENOMEM\<close>) to \<^verbatim>\<open>pthread_mutex_init\<close> or 16
  (\<^verbatim>\<open>EBUSY\<close>) to \<^verbatim>\<open>pthread_mutex_destroy\<close>.
\<close>

definition env_ex :: env where
  "env_ex = \<lparr>CRYPTO_num_locks = 3, new_result = 100,
              mutex_init_ret = (\<lambda>l. 0), mutex_destroy_ret = (\<lambda>l. 0)\<rparr>"

definition env_init_fails :: env where
  "env_init_fails = \<lparr>CRYPTO_num_locks = 3, new_result = 100,
              mutex_init_ret = (\<lambda>l. if l = (100, 1) then 12 else 0), mutex_destroy_ret = (\<lambda>l. 0)\<rparr>"

definition env_destroy_fails :: env where
  "env_destroy_fails = \<lparr>CRYPTO_num_locks = 3, new_result = 100,
      mutex_init_ret = (\<lambda>l. 0), mutex_destroy_ret = (\<lambda>l. if l = (100, 1) then 16 else 0)\<rparr>"

definition env_dyn :: env where
  "env_dyn = \<lparr>CRYPTO_num_locks = 3, new_result = 200,
      mutex_init_ret = (\<lambda>l. 0), mutex_destroy_ret = (\<lambda>l. 0)\<rparr>"

definition env_dyn_init_fails :: env where
  "env_dyn_init_fails = \<lparr>CRYPTO_num_locks = 3, new_result = 200,
      mutex_init_ret = (\<lambda>l. 12), mutex_destroy_ret = (\<lambda>l. 0)\<rparr>"

text \<open>
  One \<^verbatim>\<open>ClassInit\<close> followed by one \<^verbatim>\<open>ClassDestroy\<close>; the static attributes a run
  ends with; the world a run ends in, returned or not.
\<close>

definition Init_then_Destroy :: "env \<Rightarrow> world \<Rightarrow> world result" where
  "Init_then_Destroy env w0 =
     (case ClassInit env w0 of Inl e \<Rightarrow> Inl e | Inr w1 \<Rightarrow> ClassDestroy env w1)"

definition static_attributes :: "world result \<Rightarrow> (addr \<times> int) option" where
  "static_attributes r = (case r of Inl e \<Rightarrow> None | Inr w \<Rightarrow> Some (mutexes w, numMutexes w))"

definition world_of :: "world result \<Rightarrow> world" where
  "world_of r = (case r of Inl (e, w) \<Rightarrow> w | Inr w \<Rightarrow> w)"

text \<open>The four dynamic-lock calls in a row, on the handle the first one returns.\<close>

definition Dyn_round_trip :: "env \<Rightarrow> world \<Rightarrow> world result" where
  "Dyn_round_trip env w0 =
     (case DynCreateFunction env w0 of
        Inl e \<Rightarrow> Inl e
      | Inr (h, w1) \<Rightarrow>
          (case DynLockFunction CRYPTO_LOCK h w1 of
             Inl e \<Rightarrow> Inl e
           | Inr w2 \<Rightarrow>
               (case DynLockFunction CRYPTO_UNLOCK h w2 of
                  Inl e \<Rightarrow> Inl e
                | Inr w3 \<Rightarrow> DynDestroyFunction env h w3)))"

text \<open>The world \<^verbatim>\<open>ClassInit\<close> leaves when it starts from \<open>initial_world\<close> under \<open>env_ex\<close>.\<close>

definition world_ex :: world where
  "world_ex =
     \<lparr>mutexes = 100, numMutexes = 3,
      heap = [100 \<mapsto> (Array_new, [Idle, Idle, Idle])],
      threadid_callback = Some Fn_SetThreadId,
      locking_callback = Some Fn_LockingFunction,
      dynlock_create_callback = Some Fn_DynCreateFunction,
      dynlock_lock_callback = Some Fn_DynLockFunction,
      dynlock_destroy_callback = Some Fn_DynDestroyFunction,
      calls = [Call_SSL_load_error_strings, Call_SSL_library_init, Call_RAND_poll,
               Call_new_array 3 100,
               Call_pthread_mutex_init (100, 0), Call_pthread_mutex_init (100, 1),
               Call_pthread_mutex_init (100, 2),
               Call_CRYPTO_THREADID_set_callback (Some Fn_SetThreadId),
               Call_CRYPTO_set_locking_callback (Some Fn_LockingFunction),
               Call_CRYPTO_set_dynlock_create_callback (Some Fn_DynCreateFunction),
               Call_CRYPTO_set_dynlock_lock_callback (Some Fn_DynLockFunction),
               Call_CRYPTO_set_dynlock_destroy_callback (Some Fn_DynDestroyFunction)],
      logged = [Log_debug ''loaded openssl version: %s'']\<rparr>"

text \<open>The world in which \<^verbatim>\<open>ClassInit\<close> throws under \<open>env_init_fails\<close>.\<close>

definition world_init_failed :: world where
  "world_init_failed =
     \<lparr>mutexes = 100, numMutexes = 3,
      heap = [100 \<mapsto> (Array_new, [Idle, Uninitialized, Uninitialized])],
      threadid_callback = None, locking_callback = None, dynlock_create_callback = None,
      dynlock_lock_callback = None, dynlock_destroy_callback = None,
      calls = [Call_SSL_load_error_strings, Call_SSL_library_init, Call_RAND_poll,
               Call_new_array 3 100,
               Call_pthread_mutex_init (100, 0), Call_pthread_mutex_init (100, 1)],
      logged = [Log_debug ''loaded openssl version: %s'']\<rparr>"

text \<open>
  The world \<^verbatim>\<open>DynCreateFunction\<close> returns under \<open>env_dyn_init_fails\<close>, and
  \<open>world_ex\<close> with slot 1 locked.
\<close>

definition world_dyn_uninit :: world where
  "world_dyn_uninit =
     initial_world\<lparr>heap := [200 \<mapsto> (Scalar_new, [Uninitialized])],
                   calls := [Call_new_dynlock 200, Call_pthread_mutex_init (200, 0)]\<rparr>"

definition world_locked :: world where
  "world_locked =
     world_ex\<lparr>heap := [100 \<mapsto> (Array_new, [Idle, Locked, Idle])],
              calls := calls world_ex @ [Call_pthread_mutex_lock (100, 1)]\<rparr>"

section \<open>The loops and the two lifecycle methods\<close>

subsection \<open>The loop of \<^verbatim>\<open>ClassInit\<close>\<close>

lemma take_Suc_update_replicate:
  assumes "n < length ms"
  shows "take (Suc n) (ms[n := x]) @ replicate m x = take n ms @ replicate (Suc m) x"
  using assms by (simp add: take_Suc_conv_app_nth replicate_app_Cons_same)

lemma mutex_at_live:
  "heap w p = Some (k, ms) \<Longrightarrow> 0 \<le> i \<Longrightarrow> nat i < length ms \<Longrightarrow> mutex_at w (p, i) = Some (ms ! nat i)"
  by (simp add: mutex_at_def)

lemma init_loop_exact:
  assumes "heap w (mutexes w) = Some (k, ms)"
    and "length ms = nat (numMutexes w)"
    and "0 \<le> i" and "i \<le> numMutexes w"
    and "\<forall>j. i \<le> j \<and> j < numMutexes w \<longrightarrow> ms ! nat j \<noteq> Idle \<and> ms ! nat j \<noteq> Locked"
    and "\<forall>j. i \<le> j \<and> j < numMutexes w \<longrightarrow> mutex_init_ret env (mutexes w, j) = 0"
  shows "init_loop env i w =
     Inr (w\<lparr>heap := (heap w)(mutexes w \<mapsto>
               (k, take (nat i) ms @ replicate (nat (numMutexes w - i)) Idle)),
            calls := calls w @
               map (\<lambda>j. Call_pthread_mutex_init (mutexes w, j)) [i..numMutexes w - 1]\<rparr>)"
  using assms
proof (induction "nat (numMutexes w - i)" arbitrary: i w ms)
  case 0
  then have "i = numMutexes w" by simp
  with 0 show ?case by (subst init_loop.simps) (simp add: map_upd_triv)
next
  case (Suc d)
  let ?p = "mutexes w" and ?N = "numMutexes w"
  from Suc.hyps(2) have lt: "i < ?N" by simp
  with Suc.prems have idx: "nat i < length ms" by simp
  define w' where "w' = set_mutex (?p, i) Idle (record_call (Call_pthread_mutex_init (?p, i)) w)"
  have st: "ms ! nat i \<noteq> Idle \<and> ms ! nat i \<noteq> Locked" and code: "mutex_init_ret env (?p, i) = 0"
    using Suc.prems lt by auto
  have step: "pthread_mutex_init env (?p, i) w = Inr (0, w')"
    using Suc.prems(1) Suc.prems(3) idx st code
    by (simp add: pthread_mutex_init_def mutex_at_live w'_def)
  have w'_eq: "w' = w\<lparr>heap := (heap w)(?p \<mapsto> (k, ms[nat i := Idle])),
                     calls := calls w @ [Call_pthread_mutex_init (?p, i)]\<rparr>"
    using Suc.prems(1) by (simp add: w'_def set_mutex_def record_call_def)
  have f: "mutexes w' = ?p" "numMutexes w' = ?N" by (simp_all add: w'_eq)
  have IH: "init_loop env (i + 1) w' =
     Inr (w'\<lparr>heap := (heap w')(mutexes w' \<mapsto>
               (k, take (nat (i + 1)) (ms[nat i := Idle]) @ replicate (nat (numMutexes w' - (i + 1))) Idle)),
            calls := calls w' @
               map (\<lambda>j. Call_pthread_mutex_init (mutexes w', j)) [i + 1..numMutexes w' - 1]\<rparr>)"
  proof (rule Suc.hyps(1))
    show "d = nat (numMutexes w' - (i + 1))" using Suc.hyps(2) f by simp
    show "heap w' (mutexes w') = Some (k, ms[nat i := Idle])" by (simp add: w'_eq)
    show "length (ms[nat i := Idle]) = nat (numMutexes w')" using Suc.prems(2) f by simp
    show "0 \<le> i + 1" using Suc.prems(3) by simp
    show "i + 1 \<le> numMutexes w'" using lt f by simp
    show "\<forall>j. i + 1 \<le> j \<and> j < numMutexes w' \<longrightarrow>
        ms[nat i := Idle] ! nat j \<noteq> Idle \<and> ms[nat i := Idle] ! nat j \<noteq> Locked"
      using Suc.prems(5) Suc.prems(3) f by (auto simp: nth_list_update)
    show "\<forall>j. i + 1 \<le> j \<and> j < numMutexes w' \<longrightarrow> mutex_init_ret env (mutexes w', j) = 0"
      using Suc.prems(6) f by simp
  qed
  have n1: "nat (i + 1) = Suc (nat i)" using Suc.prems(3) by simp
  have n2: "nat (?N - i) = Suc (nat (?N - (i + 1)))" using lt by simp
  have lst: "take (nat (i + 1)) (ms[nat i := Idle]) @ replicate (nat (?N - (i + 1))) Idle
           = take (nat i) ms @ replicate (nat (?N - i)) Idle"
    unfolding n1 n2 using idx by (rule take_Suc_update_replicate)
  have up: "[i..?N - 1] = i # [i + 1..?N - 1]" using lt by (simp add: upto_rec1)
  have "init_loop env i w = init_loop env (i + 1) w'"
    using lt step by (subst init_loop.simps) simp
  also note IH
  finally show ?case
    unfolding f lst up by (simp add: w'_eq)
qed

lemma pthread_mutex_init_mutexes:
  "pthread_mutex_init env l w = Inr (err, w') \<Longrightarrow> mutexes w' = mutexes w"
  by (auto simp: pthread_mutex_init_def set_mutex_def record_call_def
      split: option.splits if_splits prod.splits)

lemma pthread_mutex_init_zero:
  "pthread_mutex_init env l w = Inr (0, w') \<Longrightarrow> mutex_init_ret env l = 0"
  by (auto simp: pthread_mutex_init_def split: option.splits if_splits)

lemma init_loop_Inr_codes:
  "init_loop env i w = Inr w' \<Longrightarrow> i \<le> j \<Longrightarrow> j < numMutexes w \<Longrightarrow>
     mutex_init_ret env (mutexes w, j) = 0"
proof (induction env i w rule: init_loop.induct)
  case (1 env i w)
  from "1.prems" have lt: "i < numMutexes w" by simp
  from "1.prems"(1) lt obtain w'' where
    step: "pthread_mutex_init env (mutexes w, i) w = Inr (0, w'')"
    and rest: "init_loop env (i + 1) w'' = Inr w'"
    by (subst (asm) init_loop.simps)
       (auto simp: MS_THROW_ERROR_def split: sum.splits prod.splits if_splits)
  show ?case
  proof (cases "j = i")
    case True
    with step show ?thesis by (simp add: pthread_mutex_init_zero)
  next
    case False
    with "1.prems" have "i + 1 \<le> j" by simp
    moreover have "j < numMutexes w''"
      using "1.prems"(3) pthread_mutex_init_numMutexes [OF step] by simp
    ultimately have "mutex_init_ret env (mutexes w'', j) = 0"
      using "1.IH" [OF lt step refl _ rest] by simp
    then show ?thesis using pthread_mutex_init_mutexes [OF step] by simp
  qed
qed

subsection \<open>A \<^verbatim>\<open>ClassInit\<close> that returns\<close>

lemmas setter_defs = CRYPTO_THREADID_set_callback_def CRYPTO_set_locking_callback_def
  CRYPTO_set_dynlock_create_callback_def CRYPTO_set_dynlock_lock_callback_def
  CRYPTO_set_dynlock_destroy_callback_def

lemma ClassInit_unfold:
  assumes "0 \<le> CRYPTO_num_locks env" and "new_result env \<noteq> nullptr"
  shows "ClassInit env w0 =
     (case init_loop env 0 (world_before_loop env w0) of
        Inl e \<Rightarrow> Inl e | Inr w7 \<Rightarrow> Inr (register_all w7))"
proof -
  let ?N = "CRYPTO_num_locks env" and ?p = "new_result env"
  define w4 where "w4 = record_call Call_RAND_poll (record_call Call_SSL_library_init
                 (record_call Call_SSL_load_error_strings
                   (MS_DEBUG ''loaded openssl version: %s'' w0)))"
  have eq: "(record_call (Call_new_array ?N ?p)
               (w4\<lparr>heap := (heap w4)(?p \<mapsto> (Array_new, replicate (nat ?N) Uninitialized))\<rparr>))
              \<lparr>mutexes := ?p, numMutexes := ?N\<rparr> = world_before_loop env w0"
    by (simp add: w4_def world_before_loop_def MS_DEBUG_def record_call_def)
  show ?thesis
    unfolding eq [symmetric] w4_def register_all_def using assms
    by (simp add: ClassInit_def Let_def new_mutex_array_def)
qed

lemma ClassInit_alloc_fails:
  assumes "CRYPTO_num_locks env < 0 \<or> new_result env = nullptr"
  shows "\<exists>w'. ClassInit env w0 =
             Inl (if CRYPTO_num_locks env < 0 then Bad_array_new_length else Bad_alloc, w')
           \<and> mutexes w' = mutexes w0 \<and> numMutexes w' = numMutexes w0
           \<and> calls w' = calls w0 @ [Call_SSL_load_error_strings, Call_SSL_library_init, Call_RAND_poll]
           \<and> heap w' = heap w0
           \<and> threadid_callback w' = threadid_callback w0
           \<and> locking_callback w' = locking_callback w0
           \<and> dynlock_create_callback w' = dynlock_create_callback w0
           \<and> dynlock_lock_callback w' = dynlock_lock_callback w0
           \<and> dynlock_destroy_callback w' = dynlock_destroy_callback w0"
  using assms
  by (auto simp: ClassInit_def Let_def new_mutex_array_def MS_THROW_ERROR_def MS_DEBUG_def
      record_call_def)

lemma ClassInit_success:
  assumes "init_ok env"
  shows "ClassInit env w0 = Inr (world_after_init env w0)"
proof -
  let ?N = "CRYPTO_num_locks env" and ?p = "new_result env"
  let ?w6 = "world_before_loop env w0"
  from assms have N: "0 \<le> ?N" and p: "?p \<noteq> nullptr"
    and codes: "\<forall>j. 0 \<le> j \<and> j < ?N \<longrightarrow> mutex_init_ret env (?p, j) = 0"
    by (simp_all add: init_ok_def)
  have loop: "init_loop env 0 ?w6 =
     Inr (?w6\<lparr>heap := (heap ?w6)(mutexes ?w6 \<mapsto>
               (Array_new, take (nat 0) (replicate (nat ?N) Uninitialized) @ replicate (nat (numMutexes ?w6 - 0)) Idle)),
            calls := calls ?w6 @
               map (\<lambda>j. Call_pthread_mutex_init (mutexes ?w6, j)) [0..numMutexes ?w6 - 1]\<rparr>)"
    by (rule init_loop_exact) (use N codes in \<open>simp_all add: world_before_loop_def\<close>)
  show ?thesis
    unfolding ClassInit_unfold [OF N p] loop
    by (simp add: register_all_def setter_defs record_call_def world_after_init_def
        world_before_loop_def)
qed

lemma ClassInit_Inr:
  assumes "ClassInit env w0 = Inr w1"
  shows "init_ok env \<and> w1 = world_after_init env w0"
proof -
  let ?N = "CRYPTO_num_locks env" and ?p = "new_result env"
  have "\<not> (?N < 0 \<or> ?p = nullptr)"
  proof
    assume "?N < 0 \<or> ?p = nullptr"
    from ClassInit_alloc_fails [OF this, of w0] assms show False by auto
  qed
  then have N: "0 \<le> ?N" and p: "?p \<noteq> nullptr" by auto
  from assms obtain w7 where "init_loop env 0 (world_before_loop env w0) = Inr w7"
    unfolding ClassInit_unfold [OF N p] by (auto split: sum.splits)
  then have "\<forall>j. 0 \<le> j \<and> j < numMutexes (world_before_loop env w0) \<longrightarrow>
       mutex_init_ret env (mutexes (world_before_loop env w0), j) = 0"
    by (blast intro: init_loop_Inr_codes)
  then have ok: "init_ok env" using N p by (simp add: init_ok_def world_before_loop_def)
  with assms ClassInit_success [OF ok, of w0] show ?thesis by simp
qed

subsection \<open>The loop of \<^verbatim>\<open>ClassDestroy\<close>\<close>

lemma take_Suc_update_append:
  assumes "n < length ms"
  shows "take (Suc n) (ms[n := x]) @ rest = take n ms @ x # rest"
  using assms by (simp add: take_Suc_conv_app_nth)

lemma destroy_loop_exact:
  assumes "heap w (mutexes w) = Some (k, ms)"
    and "length ms = nat (numMutexes w)"
    and "0 \<le> i" and "i \<le> numMutexes w"
    and "\<forall>j. i \<le> j \<and> j < numMutexes w \<longrightarrow> ms ! nat j = Idle"
  shows "destroy_loop env i w =
     Inr (w\<lparr>heap := (heap w)(mutexes w \<mapsto>
               (k, take (nat i) ms @ map (destroyed_state env (mutexes w)) [i..numMutexes w - 1])),
            calls := calls w @
               map (\<lambda>j. Call_pthread_mutex_destroy (mutexes w, j)) [i..numMutexes w - 1],
            logged := logged w @ destroy_errors env (mutexes w) [i..numMutexes w - 1]\<rparr>)"
  using assms
proof (induction "nat (numMutexes w - i)" arbitrary: i w ms)
  case 0
  then have "i = numMutexes w" by simp
  with 0 show ?case
    by (subst destroy_loop.simps) (simp add: map_upd_triv destroy_errors_def)
next
  case (Suc d)
  let ?p = "mutexes w" and ?N = "numMutexes w"
  let ?c = "mutex_destroy_ret env (?p, i)"
  from Suc.hyps(2) have lt: "i < ?N" by simp
  with Suc.prems have idx: "nat i < length ms" by simp
  have st: "ms ! nat i = Idle" using Suc.prems lt by auto
  define w' where "w' = w\<lparr>heap := (heap w)(?p \<mapsto> (k, ms[nat i := destroyed_state env ?p i])),
                           calls := calls w @ [Call_pthread_mutex_destroy (?p, i)],
                           logged := logged w @ destroy_errors env ?p [i]\<rparr>"
  have f: "mutexes w' = ?p" "numMutexes w' = ?N" by (simp_all add: w'_def)
  have step: "destroy_loop env i w = destroy_loop env (i + 1) w'"
  proof (cases "?c = 0")
    case True
    have "pthread_mutex_destroy env (?p, i) w =
            Inr (0, set_mutex (?p, i) Destroyed (record_call (Call_pthread_mutex_destroy (?p, i)) w))"
      using Suc.prems(1) Suc.prems(3) idx st True
      by (simp add: pthread_mutex_destroy_def mutex_at_live)
    moreover have "set_mutex (?p, i) Destroyed (record_call (Call_pthread_mutex_destroy (?p, i)) w) = w'"
      using Suc.prems(1) True
      by (simp add: w'_def set_mutex_def record_call_def destroyed_state_def destroy_errors_def)
    ultimately show ?thesis using lt by (subst destroy_loop.simps) simp
  next
    case False
    have "pthread_mutex_destroy env (?p, i) w =
            Inr (?c, record_call (Call_pthread_mutex_destroy (?p, i)) w)"
      using Suc.prems(1) Suc.prems(3) idx st False
      by (simp add: pthread_mutex_destroy_def mutex_at_live)
    moreover have "ms[nat i := Idle] = ms"
      using list_update_id [of ms "nat i"] st by simp
    then have "(heap w)(?p \<mapsto> (k, ms[nat i := Idle])) = heap w"
      using Suc.prems(1) by (simp add: map_upd_triv)
    then have "MS_ERROR ''pthread_mutex_destroy() failed with return code %d\<newline>'' ?c
                     (record_call (Call_pthread_mutex_destroy (?p, i)) w) = w'"
      using False
      by (simp add: w'_def MS_ERROR_def record_call_def destroyed_state_def destroy_errors_def)
    ultimately show ?thesis using lt False by (subst destroy_loop.simps) simp
  qed
  have IH: "destroy_loop env (i + 1) w' =
     Inr (w'\<lparr>heap := (heap w')(mutexes w' \<mapsto>
               (k, take (nat (i + 1)) (ms[nat i := destroyed_state env ?p i])
                    @ map (destroyed_state env (mutexes w')) [i + 1..numMutexes w' - 1])),
            calls := calls w' @
               map (\<lambda>j. Call_pthread_mutex_destroy (mutexes w', j)) [i + 1..numMutexes w' - 1],
            logged := logged w' @ destroy_errors env (mutexes w') [i + 1..numMutexes w' - 1]\<rparr>)"
  proof (rule Suc.hyps(1))
    show "d = nat (numMutexes w' - (i + 1))" using Suc.hyps(2) f by simp
    show "heap w' (mutexes w') = Some (k, ms[nat i := destroyed_state env ?p i])"
      by (simp add: w'_def)
    show "length (ms[nat i := destroyed_state env ?p i]) = nat (numMutexes w')"
      using Suc.prems(2) f by simp
    show "0 \<le> i + 1" using Suc.prems(3) by simp
    show "i + 1 \<le> numMutexes w'" using lt f by simp
    show "\<forall>j. i + 1 \<le> j \<and> j < numMutexes w' \<longrightarrow>
        ms[nat i := destroyed_state env ?p i] ! nat j = Idle"
      using Suc.prems(5) Suc.prems(3) f by (auto simp: nth_list_update)
  qed
  have n1: "nat (i + 1) = Suc (nat i)" using Suc.prems(3) by simp
  have lst: "take (nat (i + 1)) (ms[nat i := destroyed_state env ?p i])
               @ map (destroyed_state env ?p) [i + 1..?N - 1]
           = take (nat i) ms @ destroyed_state env ?p i # map (destroyed_state env ?p) [i + 1..?N - 1]"
    unfolding n1 using idx by (rule take_Suc_update_append)
  have up: "[i..?N - 1] = i # [i + 1..?N - 1]" using lt by (simp add: upto_rec1)
  have errs: "destroy_errors env ?p [i] @ destroy_errors env ?p [i + 1..?N - 1]
                = destroy_errors env ?p (i # [i + 1..?N - 1])"
    by (simp add: destroy_errors_def)
  show ?case
    unfolding step IH f lst up errs [symmetric] by (simp add: w'_def)
qed

subsection \<open>\<^verbatim>\<open>ClassDestroy\<close> on an initialised table\<close>

lemma ClassDestroy_unfold:
  "ClassDestroy env w =
     (case destroy_loop env 0 (world_before_destroy_loop w) of
        Inl e \<Rightarrow> Inl e
      | Inr w9 \<Rightarrow>
          (case (if mutexes w9 \<noteq> nullptr then delete_array (mutexes w9) w9 else Inr w9) of
             Inl e \<Rightarrow> Inl e
           | Inr w10 \<Rightarrow> Inr (deregister_all w10)))"
proof -
  have eq: "record_call Call_sk_SSL_COMP_free
             (record_call Call_SSL_COMP_get_compression_methods
               (record_call Call_CRYPTO_cleanup_all_ex_data
                 (record_call Call_EVP_cleanup
                   (record_call Call_ERR_free_strings
                     (record_call Call_ENGINE_cleanup
                       (record_call Call_ERR_remove_thread_state
                         (MS_DEBUG ''unloading openssl'' w)))))))
            = world_before_destroy_loop w"
    by (simp add: world_before_destroy_loop_def cleanup_calls_def MS_DEBUG_def record_call_def)
  show ?thesis
    unfolding eq [symmetric] deregister_all_def
    by (simp add: ClassDestroy_def Let_def)
qed

lemma ClassDestroy_table_ready:
  assumes "table_ready w"
  shows "ClassDestroy env w = Inr (world_after_destroy env w)"
proof -
  let ?N = "numMutexes w" and ?p = "mutexes w"
  let ?w8 = "world_before_destroy_loop w"
  from assms have p: "?p \<noteq> nullptr" and N: "0 \<le> ?N"
    and blk: "heap w ?p = Some (Array_new, replicate (nat ?N) Idle)"
    by (simp_all add: table_ready_def)
  have f: "mutexes ?w8 = ?p" "numMutexes ?w8 = ?N" "heap ?w8 = heap w"
    by (simp_all add: world_before_destroy_loop_def)
  have loop: "destroy_loop env 0 ?w8 =
     Inr (?w8\<lparr>heap := (heap ?w8)(mutexes ?w8 \<mapsto>
               (Array_new, take (nat 0) (replicate (nat ?N) Idle)
                  @ map (destroyed_state env (mutexes ?w8)) [0..numMutexes ?w8 - 1])),
            calls := calls ?w8 @
               map (\<lambda>j. Call_pthread_mutex_destroy (mutexes ?w8, j)) [0..numMutexes ?w8 - 1],
            logged := logged ?w8 @ destroy_errors env (mutexes ?w8) [0..numMutexes ?w8 - 1]\<rparr>)"
    by (rule destroy_loop_exact) (use N blk in \<open>simp_all add: f\<close>)
  show ?thesis
    unfolding ClassDestroy_unfold loop using p
    by (simp add: f delete_array_def deregister_all_def setter_defs record_call_def
        world_after_destroy_def world_before_destroy_loop_def deregister_calls_def)
qed

lemma table_ready_after_init:
  "init_ok env \<Longrightarrow> table_ready (world_after_init env w0)"
  by (simp add: init_ok_def table_ready_def world_after_init_def)

subsection \<open>A \<^verbatim>\<open>ClassInit\<close> that throws\<close>

lemma pthread_mutex_init_Inl:
  "pthread_mutex_init env l w = Inl (e, w') \<Longrightarrow>
     registered w' = registered w \<and>
     (\<exists>es. calls w' = calls w @ es \<and> (\<forall>x\<in>set es. \<not> is_registration x))"
  by (auto simp: pthread_mutex_init_def record_call_def registered_def
      split: option.splits if_splits)

lemma pthread_mutex_init_Inr:
  "pthread_mutex_init env l w = Inr (err, w') \<Longrightarrow>
     registered w' = registered w \<and>
     (\<exists>es. calls w' = calls w @ es \<and> (\<forall>x\<in>set es. \<not> is_registration x))"
  by (auto simp: pthread_mutex_init_def record_call_def registered_def set_mutex_def
      split: option.splits if_splits prod.splits)

lemma init_loop_Inl:
  "init_loop env i w = Inl (e, w') \<Longrightarrow>
     registered w' = registered w \<and>
     (\<exists>es. calls w' = calls w @ es \<and> (\<forall>x\<in>set es. \<not> is_registration x))"
proof (induction env i w rule: init_loop.induct)
  case (1 env i w)
  from "1.prems" have lt: "i < numMutexes w"
    by (subst (asm) init_loop.simps) (auto split: if_splits)
  show ?case
  proof (cases "pthread_mutex_init env (mutexes w, i) w")
    case (Inl a)
    with "1.prems" lt have "pthread_mutex_init env (mutexes w, i) w = Inl (e, w')"
      by (subst (asm) init_loop.simps) simp
    then show ?thesis by (rule pthread_mutex_init_Inl)
  next
    case (Inr b)
    obtain err w'' where b: "b = (err, w'')" by (cases b)
    note step = Inr [unfolded b]
    from pthread_mutex_init_Inr [OF step] obtain es where
      r: "registered w'' = registered w" and c: "calls w'' = calls w @ es"
      and n: "\<forall>x\<in>set es. \<not> is_registration x" by blast
    show ?thesis
    proof (cases "err = 0")
      case True
      with "1.prems" lt step have rest: "init_loop env (i + 1) w'' = Inl (e, w')"
        by (subst (asm) init_loop.simps) simp
      from "1.IH" [OF lt step refl _ rest] True obtain es' where
        "registered w' = registered w''" "calls w' = calls w'' @ es'"
        "\<forall>x\<in>set es'. \<not> is_registration x" by auto
      with r c n show ?thesis by auto
    next
      case False
      with "1.prems" lt step have "w' = w''"
        by (subst (asm) init_loop.simps) (simp add: MS_THROW_ERROR_def)
      with r c n show ?thesis by auto
    qed
  qed
qed

lemma registered_world_before_loop:
  "registered (world_before_loop env w0) = registered w0"
  by (simp add: registered_def world_before_loop_def)

lemma ClassInit_Inl:
  assumes "ClassInit env w0 = Inl (e, w')"
  shows "registered w' = registered w0 \<and>
     (\<exists>es. calls w' = calls w0 @ es \<and> (\<forall>x\<in>set es. \<not> is_registration x))"
proof (cases "CRYPTO_num_locks env < 0 \<or> new_result env = nullptr")
  case True
  from ClassInit_alloc_fails [OF True, of w0] assms show ?thesis
    by (auto simp: registered_def)
next
  case False
  then have N: "0 \<le> CRYPTO_num_locks env" and p: "new_result env \<noteq> nullptr" by auto
  from assms have "init_loop env 0 (world_before_loop env w0) = Inl (e, w')"
    unfolding ClassInit_unfold [OF N p] by (auto split: sum.splits)
  from init_loop_Inl [OF this] obtain es where
    "registered w' = registered (world_before_loop env w0)"
    "calls w' = calls (world_before_loop env w0) @ es" "\<forall>x\<in>set es. \<not> is_registration x"
    by blast
  moreover have "calls (world_before_loop env w0) = calls w0 @
      [Call_SSL_load_error_strings, Call_SSL_library_init, Call_RAND_poll,
       Call_new_array (CRYPTO_num_locks env) (new_result env)]"
    by (simp add: world_before_loop_def)
  ultimately show ?thesis
    by (auto simp: registered_world_before_loop)
qed

lemma destroy_loop_done: "numMutexes w \<le> i \<Longrightarrow> destroy_loop env i w = Inr w"
  by (subst destroy_loop.simps) simp

subsection \<open>Counting calls\<close>

lemma count_list_distinct:
  "distinct xs \<Longrightarrow> count_list xs x = (if x \<in> set xs then 1 else 0)"
  by (induction xs) auto

lemma count_list_map_upto:
  assumes "inj f"
  shows "count_list (map f [a..b]) (f j) = (if a \<le> j \<and> j \<le> b then 1 else 0)"
  using assms by (simp add: count_list_map_conv count_list_distinct)

lemma count_init_calls:
  "count_list (map (\<lambda>j. Call_pthread_mutex_init (p, j)) [0..N - 1]) (Call_pthread_mutex_init l)
     = (if fst l = p \<and> 0 \<le> snd l \<and> snd l < N then 1 else 0)"
proof (cases "fst l = p")
  case True
  have "inj (\<lambda>j. Call_pthread_mutex_init (p, j))" by (simp add: inj_def)
  from count_list_map_upto [OF this, of 0 "N - 1" "snd l"] True show ?thesis
    by (cases l) auto
next
  case False
  then have "Call_pthread_mutex_init l \<notin> set (map (\<lambda>j. Call_pthread_mutex_init (p, j)) [0..N - 1])"
    by (cases l) auto
  with False show ?thesis by simp
qed

lemma count_destroy_calls:
  "count_list (map (\<lambda>j. Call_pthread_mutex_destroy (p, j)) [0..N - 1]) (Call_pthread_mutex_destroy l)
     = (if fst l = p \<and> 0 \<le> snd l \<and> snd l < N then 1 else 0)"
proof (cases "fst l = p")
  case True
  have "inj (\<lambda>j. Call_pthread_mutex_destroy (p, j))" by (simp add: inj_def)
  from count_list_map_upto [OF this, of 0 "N - 1" "snd l"] True show ?thesis
    by (cases l) auto
next
  case False
  then have "Call_pthread_mutex_destroy l \<notin> set (map (\<lambda>j. Call_pthread_mutex_destroy (p, j)) [0..N - 1])"
    by (cases l) auto
  with False show ?thesis by simp
qed

lemma count_other_in_init_calls:
  "\<forall>l. e \<noteq> Call_pthread_mutex_init l \<Longrightarrow>
     count_list (map (\<lambda>j. Call_pthread_mutex_init (p, j)) [0..N - 1]) e = 0"
  by (rule count_notin) auto

lemma count_other_in_destroy_calls:
  "\<forall>l. e \<noteq> Call_pthread_mutex_destroy l \<Longrightarrow>
     count_list (map (\<lambda>j. Call_pthread_mutex_destroy (p, j)) [0..N - 1]) e = 0"
  by (rule count_notin) auto

lemma cycle_after_init:
  assumes "init_ok env" and "heap w0 (new_result env) = None"
  shows "ClassDestroy env' (world_after_init env w0) =
           Inr (world_after_destroy env' (world_after_init env w0))"
    and "heap (world_after_destroy env' (world_after_init env w0)) = heap w0"
    and "mutexes (world_after_destroy env' (world_after_init env w0)) = new_result env"
    and "numMutexes (world_after_destroy env' (world_after_init env w0)) = CRYPTO_num_locks env"
    and "registered (world_after_destroy env' (world_after_init env w0)) = [None, None, None, None, None]"
proof -
  show "ClassDestroy env' (world_after_init env w0) =
           Inr (world_after_destroy env' (world_after_init env w0))"
    using assms(1) by (intro ClassDestroy_table_ready table_ready_after_init)
  show "heap (world_after_destroy env' (world_after_init env w0)) = heap w0"
    using assms(2) by (simp add: world_after_destroy_def world_after_init_def fun_upd_idem_iff)
qed (simp_all add: world_after_destroy_def world_after_init_def registered_def)

subsection \<open>The callbacks\<close>

lemma lock_bit_flip_READ: "(mode XOR CRYPTO_READ) AND CRYPTO_LOCK = mode AND CRYPTO_LOCK"
  by (rule bit_word_eqI) (auto simp: CRYPTO_READ_def CRYPTO_LOCK_def bit_simps)

lemma lock_bit_flip_WRITE: "(mode XOR CRYPTO_WRITE) AND CRYPTO_LOCK = mode AND CRYPTO_LOCK"
  by (rule bit_word_eqI) (auto simp: CRYPTO_WRITE_def CRYPTO_LOCK_def bit_simps)

lemma LockingFunction_cong:
  "mode' AND CRYPTO_LOCK = mode AND CRYPTO_LOCK \<Longrightarrow>
     LockingFunction mode' n w = LockingFunction mode n w"
  by (simp add: LockingFunction_def)

lemma DynCreateFunction_never_null:
  "DynCreateFunction env w \<noteq> Inr (nullptr, w')"
  by (cases "new_result env = nullptr")
     (auto simp: DynCreateFunction_def new_dynlock_value_def MS_ABORT_def split: sum.splits)

lemma DynCreateFunction_alloc_fails:
  "new_result env = nullptr \<Longrightarrow> DynCreateFunction env w = Inl (Bad_alloc, w)"
  by (simp add: DynCreateFunction_def new_dynlock_value_def)

text \<open>
  The sequence create, lock, unlock, destroy on a handle whose mutex
  \<^verbatim>\<open>pthread_mutex_init\<close> has initialised (it answered 0): every call returns, and the
  world at the end is the world at the start but for the six calls made.
\<close>

lemma Dyn_lock_round_trip:
  assumes "new_result env \<noteq> nullptr" and "heap w0 (new_result env) = None"
    and "mutex_init_ret env (new_result env, 0) = 0"
  shows "\<exists>w1 w2 w3 w4.
     DynCreateFunction env w0 = Inr (new_result env, w1) \<and>
     mutex_at w1 (new_result env, 0) = Some Idle \<and>
     DynLockFunction CRYPTO_LOCK (new_result env) w1 = Inr w2 \<and>
     DynLockFunction CRYPTO_UNLOCK (new_result env) w2 = Inr w3 \<and>
     DynDestroyFunction env' (new_result env) w3 = Inr w4 \<and>
     w4 = w0\<lparr>calls := calls w0 @
            [Call_new_dynlock (new_result env),
             Call_pthread_mutex_init (new_result env, 0),
             Call_pthread_mutex_lock (new_result env, 0),
             Call_pthread_mutex_unlock (new_result env, 0),
             Call_pthread_mutex_destroy (new_result env, 0),
             Call_delete (new_result env)]\<rparr>"
proof -
  let ?h = "new_result env"
  define w1 where "w1 = w0\<lparr>heap := (heap w0)(?h \<mapsto> (Scalar_new, [Idle])),
      calls := calls w0 @ [Call_new_dynlock ?h, Call_pthread_mutex_init (?h, 0)]\<rparr>"
  define w2 where "w2 = w0\<lparr>heap := (heap w0)(?h \<mapsto> (Scalar_new, [Locked])),
      calls := calls w0 @ [Call_new_dynlock ?h, Call_pthread_mutex_init (?h, 0),
                           Call_pthread_mutex_lock (?h, 0)]\<rparr>"
  define w3 where "w3 = w0\<lparr>heap := (heap w0)(?h \<mapsto> (Scalar_new, [Idle])),
      calls := calls w0 @ [Call_new_dynlock ?h, Call_pthread_mutex_init (?h, 0),
                           Call_pthread_mutex_lock (?h, 0), Call_pthread_mutex_unlock (?h, 0)]\<rparr>"
  have c: "DynCreateFunction env w0 = Inr (?h, w1)"
    using assms(1,3)
    by (simp add: DynCreateFunction_def new_dynlock_value_def pthread_mutex_init_def
        mutex_at_def discard_def record_call_def set_mutex_def w1_def)
  have m: "mutex_at w1 (?h, 0) = Some Idle" by (simp add: mutex_at_def w1_def)
  have l: "DynLockFunction CRYPTO_LOCK ?h w1 = Inr w2"
    by (simp add: DynLockFunction_def CRYPTO_LOCK_def pthread_mutex_lock_def
        mutex_at_def discard_def record_call_def set_mutex_def w1_def w2_def)
  have u: "DynLockFunction CRYPTO_UNLOCK ?h w2 = Inr w3"
    by (simp add: DynLockFunction_def CRYPTO_LOCK_def CRYPTO_UNLOCK_def pthread_mutex_unlock_def
        mutex_at_def discard_def record_call_def set_mutex_def w2_def w3_def)
  have d: "DynDestroyFunction env' ?h w3 = Inr (w0\<lparr>calls := calls w0 @
            [Call_new_dynlock ?h, Call_pthread_mutex_init (?h, 0),
             Call_pthread_mutex_lock (?h, 0), Call_pthread_mutex_unlock (?h, 0),
             Call_pthread_mutex_destroy (?h, 0), Call_delete ?h]\<rparr>)"
    using assms(2)
    by (simp add: DynDestroyFunction_def pthread_mutex_destroy_def delete_value_def
        mutex_at_def discard_def record_call_def set_mutex_def w3_def fun_upd_idem_iff)
  from c m l u d show ?thesis by blast
qed

lemma Dyn_lock_round_trip_example:
  "new_result env_dyn \<noteq> nullptr \<and> heap initial_world (new_result env_dyn) = None \<and>
   mutex_init_ret env_dyn (new_result env_dyn, 0) = 0 \<and>
   (\<exists>w1 w2 w3 w4.
     DynCreateFunction env_dyn initial_world = Inr (200, w1) \<and>
     DynLockFunction CRYPTO_LOCK 200 w1 = Inr w2 \<and>
     DynLockFunction CRYPTO_UNLOCK 200 w2 = Inr w3 \<and>
     DynDestroyFunction env_dyn 200 w3 = Inr w4 \<and>
     heap w4 = Map.empty \<and>
     calls w4 = [Call_new_dynlock 200, Call_pthread_mutex_init (200, 0),
                 Call_pthread_mutex_lock (200, 0), Call_pthread_mutex_unlock (200, 0),
                 Call_pthread_mutex_destroy (200, 0), Call_delete 200])"
proof -
  have h: "new_result env_dyn \<noteq> nullptr" "heap initial_world (new_result env_dyn) = None"
    "mutex_init_ret env_dyn (new_result env_dyn, 0) = 0"
    by (simp_all add: env_dyn_def nullptr_def initial_world_def)
  from Dyn_lock_round_trip [OF h, of env_dyn]
  obtain w1 w2 w3 w4 where
    "DynCreateFunction env_dyn initial_world = Inr (new_result env_dyn, w1)"
    "DynLockFunction CRYPTO_LOCK (new_result env_dyn) w1 = Inr w2"
    "DynLockFunction CRYPTO_UNLOCK (new_result env_dyn) w2 = Inr w3"
    "DynDestroyFunction env_dyn (new_result env_dyn) w3 = Inr w4"
    "w4 = initial_world\<lparr>calls := calls initial_world @
            [Call_new_dynlock (new_result env_dyn),
             Call_pthread_mutex_init (new_result env_dyn, 0),
             Call_pthread_mutex_lock (new_result env_dyn, 0),
             Call_pthread_mutex_unlock (new_result env_dyn, 0),
             Call_pthread_mutex_destroy (new_result env_dyn, 0),
             Call_delete (new_result env_dyn)]\<rparr>"
    by blast
  then show ?thesis
    using h by (auto simp: env_dyn_def initial_world_def)
qed

subsection \<open>Concrete runs\<close>

lemma upto_0_2: "[0..2] = [0, 1, 2::int]"
  by (simp add: upto_rec1 [of 0] upto_rec1 [of 1])

lemmas run_defs = ClassInit_def ClassDestroy_def Let_def new_mutex_array_def delete_array_def
  nullptr_def MS_DEBUG_def MS_ERROR_def MS_THROW_ERROR_def record_call_def
  init_loop.simps destroy_loop.simps pthread_mutex_init_def pthread_mutex_destroy_def
  mutex_at_def set_mutex_def setter_defs numeral_2_eq_2 numeral_3_eq_3

lemma ClassInit_env_ex: "ClassInit env_ex initial_world = Inr world_ex"
  by (simp add: run_defs env_ex_def initial_world_def world_ex_def)

lemma ClassInit_env_init_fails:
  "ClassInit env_init_fails initial_world =
     Inl (Thrown ''pthread_mutex_init() failed with return code %d\<newline>'' [12], world_init_failed)"
  by (simp add: run_defs env_init_fails_def initial_world_def world_init_failed_def)

lemma world_ex_ready:
  "mutexes world_ex \<noteq> nullptr" "0 \<le> numMutexes world_ex"
  "heap world_ex (mutexes world_ex) = Some (Array_new, replicate (nat (numMutexes world_ex)) Idle)"
  "length [Idle, Idle, Idle] = nat (numMutexes world_ex)"
  by (simp_all add: world_ex_def nullptr_def numeral_3_eq_3 upto_0_2)

lemma initial_world_fresh: "heap initial_world p = None"
  by (simp add: initial_world_def)

lemma world_locked_table:
  "heap world_locked (mutexes world_locked) = Some (Array_new, [Idle, Locked, Idle])"
  "length [Idle, Locked, Idle] = nat (numMutexes world_locked)"
  by (simp_all add: world_locked_def world_ex_def)

lemma world_ex_table:
  "heap world_ex (mutexes world_ex) = Some (Array_new, [Idle, Idle, Idle])"
  "mutexes world_ex = 100" "numMutexes world_ex = 3"
  "heap world_ex = [100 \<mapsto> (Array_new, [Idle, Idle, Idle])]"
  by (simp_all add: world_ex_def)

section \<open>The claims\<close>

text \<open>
  C1 (as amended). After \<^verbatim>\<open>ClassDestroy\<close> following a successful \<^verbatim>\<open>ClassInit\<close>, the
  mutex table is freed (the heap is what it was before \<^verbatim>\<open>ClassInit\<close>) and the five
  callbacks are null, but the two static attributes are not reset: \<^verbatim>\<open>OpenSSL::mutexes\<close>
  still holds the address of the freed table, which is not null, and
  \<^verbatim>\<open>OpenSSL::numMutexes\<close> still holds the lock count. A second \<^verbatim>\<open>ClassInit\<close> in the
  same environment assigns both before it reads them, so it succeeds and ends with the
  same table, count and callbacks as the first.
\<close>

theorem ClassDestroy_keeps_static_attributes:
  assumes "ClassInit env w0 = Inr w1" and "heap w0 (new_result env) = None"
  shows "\<exists>w2 w3. ClassDestroy env' w1 = Inr w2 \<and>
     mutexes w2 = mutexes w1 \<and> numMutexes w2 = numMutexes w1 \<and>
     mutexes w2 = new_result env \<and> mutexes w2 \<noteq> nullptr \<and>
     numMutexes w2 = CRYPTO_num_locks env \<and>
     heap w2 = heap w0 \<and>
     registered w2 = [None, None, None, None, None] \<and>
     ClassInit env w2 = Inr w3 \<and>
     mutexes w3 = mutexes w1 \<and> numMutexes w3 = numMutexes w1 \<and>
     heap w3 = heap w1 \<and> registered w3 = registered w1"
proof -
  from assms(1) have ok: "init_ok env" and w1: "w1 = world_after_init env w0"
    by (simp_all add: ClassInit_Inr)
  let ?w2 = "world_after_destroy env' w1"
  let ?w3 = "world_after_init env ?w2"
  note cyc = cycle_after_init [OF ok assms(2), of env', folded w1]
  have p: "new_result env \<noteq> nullptr" using ok by (simp add: init_ok_def)
  have a1: "mutexes w1 = new_result env" "numMutexes w1 = CRYPTO_num_locks env"
    by (simp_all add: w1 world_after_init_def)
  have again: "ClassInit env ?w2 = Inr ?w3" using ok by (rule ClassInit_success)
  have a3: "mutexes ?w3 = mutexes w1" "numMutexes ?w3 = numMutexes w1"
    by (simp_all add: a1 world_after_init_def)
  have hi: "heap (world_after_init env w) =
      (heap w)(new_result env \<mapsto> (Array_new, replicate (nat (CRYPTO_num_locks env)) Idle))"
    for w by (simp add: world_after_init_def)
  have ri: "registered (world_after_init env w) =
      [Some Fn_SetThreadId, Some Fn_LockingFunction, Some Fn_DynCreateFunction,
       Some Fn_DynLockFunction, Some Fn_DynDestroyFunction]"
    for w by (simp add: world_after_init_def registered_def)
  have "heap ?w3 = (heap ?w2)(new_result env \<mapsto>
           (Array_new, replicate (nat (CRYPTO_num_locks env)) Idle))"
    by (rule hi)
  also have "\<dots> = (heap w0)(new_result env \<mapsto>
           (Array_new, replicate (nat (CRYPTO_num_locks env)) Idle))"
    by (simp only: cyc(2))
  also have "\<dots> = heap w1" by (simp only: w1 hi)
  finally have h3: "heap ?w3 = heap w1" .
  have r3: "registered ?w3 = registered w1" unfolding w1 ri ..
  from cyc a1 p again a3 h3 r3 show ?thesis by auto
qed

theorem ClassDestroy_keeps_static_attributes_witness:
  "ClassInit env_ex initial_world = Inr world_ex \<and>
   heap initial_world (new_result env_ex) = None \<and>
   (\<exists>w2 w3. ClassDestroy env_ex world_ex = Inr w2 \<and>
      mutexes w2 = 100 \<and> numMutexes w2 = 3 \<and> heap w2 = Map.empty \<and>
      registered w2 = [None, None, None, None, None] \<and>
      ClassInit env_ex w2 = Inr w3 \<and> mutexes w3 = 100 \<and> numMutexes w3 = 3 \<and>
      heap w3 = heap world_ex \<and> registered w3 = registered world_ex)"
proof -
  note run = ClassInit_env_ex and fresh = initial_world_fresh [of "new_result env_ex"]
  from ClassDestroy_keeps_static_attributes [OF run fresh, of env_ex]
  obtain w2 w3 where "ClassDestroy env_ex world_ex = Inr w2"
    "mutexes w2 = new_result env_ex" "numMutexes w2 = CRYPTO_num_locks env_ex"
    "heap w2 = heap initial_world" "registered w2 = [None, None, None, None, None]"
    "ClassInit env_ex w2 = Inr w3" "mutexes w3 = mutexes world_ex"
    "numMutexes w3 = numMutexes world_ex" "heap w3 = heap world_ex"
    "registered w3 = registered world_ex"
    by blast
  then show ?thesis
    using run fresh by (auto simp: env_ex_def initial_world_def world_ex_def)
qed

text \<open>
  C1 as the spec states it fails: after \<^verbatim>\<open>ClassInit\<close> and \<^verbatim>\<open>ClassDestroy\<close> with three
  locks and the table at address 100, the static attributes are 100 and 3, not null and
  zero.
\<close>

theorem ClassDestroy_resets_static_attributes_counterexample:
  "static_attributes (Init_then_Destroy env_ex initial_world) = Some (100, 3) \<and>
   static_attributes (Init_then_Destroy env_ex initial_world) \<noteq> Some (nullptr, 0)"
  by (simp add: Init_then_Destroy_def ClassInit_env_ex static_attributes_def)
     (simp add: run_defs world_ex_def env_ex_def)

text \<open>
  C2. A \<^verbatim>\<open>ClassInit\<close> that returns has made exactly these calls, in this order: the
  bootstrap (\<^verbatim>\<open>SSL_load_error_strings\<close>, \<^verbatim>\<open>SSL_library_init\<close>, \<^verbatim>\<open>RAND_poll\<close>), the
  allocation of a table of \<^verbatim>\<open>CRYPTO_num_locks()\<close> mutexes, \<^verbatim>\<open>pthread_mutex_init\<close> on
  the slots 0 to N-1, and the five registrations (thread id, static locking, dynamic
  create, dynamic lock, dynamic destroy); every slot of the table is then initialised. A
  \<^verbatim>\<open>ClassInit\<close> that throws has registered no callback. \<^verbatim>\<open>ClassInit\<close> does return when
  the allocation succeeds and every \<^verbatim>\<open>pthread_mutex_init\<close> answers 0.
\<close>

theorem ClassInit_steps_in_order:
  "(ClassInit env w0 = Inr w1 \<longrightarrow>
      calls w1 = calls w0 @
        [Call_SSL_load_error_strings, Call_SSL_library_init, Call_RAND_poll] @
        [Call_new_array (CRYPTO_num_locks env) (new_result env)] @
        map (\<lambda>i. Call_pthread_mutex_init (new_result env, i)) [0..CRYPTO_num_locks env - 1] @
        [Call_CRYPTO_THREADID_set_callback (Some Fn_SetThreadId),
         Call_CRYPTO_set_locking_callback (Some Fn_LockingFunction),
         Call_CRYPTO_set_dynlock_create_callback (Some Fn_DynCreateFunction),
         Call_CRYPTO_set_dynlock_lock_callback (Some Fn_DynLockFunction),
         Call_CRYPTO_set_dynlock_destroy_callback (Some Fn_DynDestroyFunction)]
      \<and> mutexes w1 = new_result env \<and> numMutexes w1 = CRYPTO_num_locks env
      \<and> heap w1 (new_result env) =
          Some (Array_new, replicate (nat (CRYPTO_num_locks env)) Idle))
   \<and> (ClassInit env w0 = Inl (e, w') \<longrightarrow>
        registered w' = registered w0 \<and>
        (\<exists>es. calls w' = calls w0 @ es \<and> (\<forall>x\<in>set es. \<not> is_registration x)))
   \<and> (0 \<le> CRYPTO_num_locks env \<and> new_result env \<noteq> nullptr \<and>
        (\<forall>i. 0 \<le> i \<and> i < CRYPTO_num_locks env \<longrightarrow> mutex_init_ret env (new_result env, i) = 0)
        \<longrightarrow> (\<exists>w. ClassInit env w0 = Inr w))"
proof (intro conjI impI)
  assume "ClassInit env w0 = Inr w1"
  then have w1: "w1 = world_after_init env w0" by (simp add: ClassInit_Inr)
  show "calls w1 = calls w0 @
        [Call_SSL_load_error_strings, Call_SSL_library_init, Call_RAND_poll] @
        [Call_new_array (CRYPTO_num_locks env) (new_result env)] @
        map (\<lambda>i. Call_pthread_mutex_init (new_result env, i)) [0..CRYPTO_num_locks env - 1] @
        [Call_CRYPTO_THREADID_set_callback (Some Fn_SetThreadId),
         Call_CRYPTO_set_locking_callback (Some Fn_LockingFunction),
         Call_CRYPTO_set_dynlock_create_callback (Some Fn_DynCreateFunction),
         Call_CRYPTO_set_dynlock_lock_callback (Some Fn_DynLockFunction),
         Call_CRYPTO_set_dynlock_destroy_callback (Some Fn_DynDestroyFunction)]"
    by (simp add: w1 world_after_init_def)
  show "mutexes w1 = new_result env" "numMutexes w1 = CRYPTO_num_locks env"
    "heap w1 (new_result env) = Some (Array_new, replicate (nat (CRYPTO_num_locks env)) Idle)"
    by (simp_all add: w1 world_after_init_def)
next
  assume "ClassInit env w0 = Inl (e, w')"
  then show "registered w' = registered w0"
    and "\<exists>es. calls w' = calls w0 @ es \<and> (\<forall>x\<in>set es. \<not> is_registration x)"
    by (simp_all add: ClassInit_Inl)
next
  assume "0 \<le> CRYPTO_num_locks env \<and> new_result env \<noteq> nullptr \<and>
        (\<forall>i. 0 \<le> i \<and> i < CRYPTO_num_locks env \<longrightarrow> mutex_init_ret env (new_result env, i) = 0)"
  then have "init_ok env" by (simp add: init_ok_def)
  then show "\<exists>w. ClassInit env w0 = Inr w" by (simp add: ClassInit_success)
qed

theorem ClassInit_steps_in_order_witness:
  "ClassInit env_ex initial_world = Inr world_ex \<and>
   calls world_ex =
     [Call_SSL_load_error_strings, Call_SSL_library_init, Call_RAND_poll,
      Call_new_array 3 100,
      Call_pthread_mutex_init (100, 0), Call_pthread_mutex_init (100, 1),
      Call_pthread_mutex_init (100, 2),
      Call_CRYPTO_THREADID_set_callback (Some Fn_SetThreadId),
      Call_CRYPTO_set_locking_callback (Some Fn_LockingFunction),
      Call_CRYPTO_set_dynlock_create_callback (Some Fn_DynCreateFunction),
      Call_CRYPTO_set_dynlock_lock_callback (Some Fn_DynLockFunction),
      Call_CRYPTO_set_dynlock_destroy_callback (Some Fn_DynDestroyFunction)] \<and>
   heap world_ex 100 = Some (Array_new, [Idle, Idle, Idle]) \<and>
   ClassInit env_init_fails initial_world =
     Inl (Thrown ''pthread_mutex_init() failed with return code %d\<newline>'' [12], world_init_failed) \<and>
   registered world_init_failed = [None, None, None, None, None] \<and>
   (\<exists>w. ClassInit env_ex initial_world = Inr w)"
proof -
  note ok = ClassInit_steps_in_order
    [of env_ex initial_world world_ex "Thrown [] []" initial_world]
  note bad = ClassInit_steps_in_order
    [of env_init_fails initial_world world_ex
       "Thrown ''pthread_mutex_init() failed with return code %d\<newline>'' [12]" world_init_failed]
  from ok bad ClassInit_env_ex ClassInit_env_init_fails show ?thesis
    by (simp add: env_ex_def initial_world_def registered_def numeral_3_eq_3 upto_0_2)
qed

text \<open>
  C3. On a table as \<^verbatim>\<open>ClassInit\<close> leaves it, \<^verbatim>\<open>ClassDestroy\<close> returns after exactly
  these calls, in this order: \<^verbatim>\<open>ERR_remove_thread_state\<close>; \<^verbatim>\<open>ENGINE_cleanup\<close>;
  \<^verbatim>\<open>ERR_free_strings\<close>, \<^verbatim>\<open>EVP_cleanup\<close>, \<^verbatim>\<open>CRYPTO_cleanup_all_ex_data\<close>; the release
  of the compression methods; \<^verbatim>\<open>pthread_mutex_destroy\<close> on the slots 0 to N-1 and
  \<^verbatim>\<open>delete[]\<close> of the table; the five setters, each with null. The table is gone from
  the heap and the five callbacks are null.
\<close>

theorem ClassDestroy_steps_in_order:
  assumes "mutexes w \<noteq> nullptr" and "0 \<le> numMutexes w"
    and "heap w (mutexes w) = Some (Array_new, replicate (nat (numMutexes w)) Idle)"
  shows "\<exists>w'. ClassDestroy env w = Inr w' \<and>
     calls w' = calls w @
       [Call_ERR_remove_thread_state] @
       [Call_ENGINE_cleanup] @
       [Call_ERR_free_strings, Call_EVP_cleanup, Call_CRYPTO_cleanup_all_ex_data] @
       [Call_SSL_COMP_get_compression_methods, Call_sk_SSL_COMP_free] @
       map (\<lambda>i. Call_pthread_mutex_destroy (mutexes w, i)) [0..numMutexes w - 1] @
       [Call_delete_array (mutexes w)] @
       [Call_CRYPTO_THREADID_set_callback None, Call_CRYPTO_set_locking_callback None,
        Call_CRYPTO_set_dynlock_create_callback None, Call_CRYPTO_set_dynlock_lock_callback None,
        Call_CRYPTO_set_dynlock_destroy_callback None] \<and>
     heap w' = (heap w)(mutexes w := None) \<and>
     registered w' = [None, None, None, None, None]"
proof -
  from assms have "table_ready w" by (simp add: table_ready_def)
  then have "ClassDestroy env w = Inr (world_after_destroy env w)"
    by (rule ClassDestroy_table_ready)
  then show ?thesis
    by (simp add: world_after_destroy_def cleanup_calls_def deregister_calls_def registered_def)
qed

theorem ClassDestroy_steps_in_order_witness:
  "mutexes world_ex \<noteq> nullptr \<and> 0 \<le> numMutexes world_ex \<and>
   heap world_ex (mutexes world_ex) = Some (Array_new, replicate (nat (numMutexes world_ex)) Idle) \<and>
   (\<exists>w'. ClassDestroy env_ex world_ex = Inr w' \<and>
      calls w' = calls world_ex @
        [Call_ERR_remove_thread_state, Call_ENGINE_cleanup, Call_ERR_free_strings,
         Call_EVP_cleanup, Call_CRYPTO_cleanup_all_ex_data,
         Call_SSL_COMP_get_compression_methods, Call_sk_SSL_COMP_free,
         Call_pthread_mutex_destroy (100, 0), Call_pthread_mutex_destroy (100, 1),
         Call_pthread_mutex_destroy (100, 2), Call_delete_array 100,
         Call_CRYPTO_THREADID_set_callback None, Call_CRYPTO_set_locking_callback None,
         Call_CRYPTO_set_dynlock_create_callback None,
         Call_CRYPTO_set_dynlock_lock_callback None,
         Call_CRYPTO_set_dynlock_destroy_callback None] \<and>
      heap w' 100 = None \<and> registered w' = [None, None, None, None, None])"
proof -
  from ClassDestroy_steps_in_order [OF world_ex_ready(1,2,3), of env_ex]
  obtain w' where "ClassDestroy env_ex world_ex = Inr w'"
    "calls w' = calls world_ex @
       [Call_ERR_remove_thread_state] @ [Call_ENGINE_cleanup] @
       [Call_ERR_free_strings, Call_EVP_cleanup, Call_CRYPTO_cleanup_all_ex_data] @
       [Call_SSL_COMP_get_compression_methods, Call_sk_SSL_COMP_free] @
       map (\<lambda>i. Call_pthread_mutex_destroy (mutexes world_ex, i)) [0..numMutexes world_ex - 1] @
       [Call_delete_array (mutexes world_ex)] @
       [Call_CRYPTO_THREADID_set_callback None, Call_CRYPTO_set_locking_callback None,
        Call_CRYPTO_set_dynlock_create_callback None, Call_CRYPTO_set_dynlock_lock_callback None,
        Call_CRYPTO_set_dynlock_destroy_callback None]"
    "heap w' = (heap world_ex)(mutexes world_ex := None)"
    "registered w' = [None, None, None, None, None]"
    by blast
  moreover have "mutexes world_ex = 100" "numMutexes world_ex = 3"
    by (simp_all add: world_ex_def)
  ultimately show ?thesis
    using world_ex_ready(1,2,3) by (auto simp: numeral_3_eq_3 upto_0_2)
qed

text \<open>
  C4. For a slot index inside the table, \<^verbatim>\<open>LockingFunction\<close> calls
  \<^verbatim>\<open>pthread_mutex_lock\<close> on the mutex of that slot exactly when the
  \<^verbatim>\<open>CRYPTO_LOCK\<close> bit of \<open>mode\<close> is set, and \<^verbatim>\<open>pthread_mutex_unlock\<close> on the same
  mutex otherwise: an idle mutex becomes locked, a locked one idle. Two modes that agree
  on the \<^verbatim>\<open>CRYPTO_LOCK\<close> bit behave alike; in particular flipping the
  \<^verbatim>\<open>CRYPTO_READ\<close> or the \<^verbatim>\<open>CRYPTO_WRITE\<close> bit changes nothing.
\<close>

theorem LockingFunction_lock_bit_only:
  assumes "heap w (mutexes w) = Some (k, ms)" and "length ms = nat (numMutexes w)"
    and "0 \<le> n" and "n < numMutexes w"
  shows "calls (world_of (LockingFunction mode n w)) = calls w @
           [if mode AND CRYPTO_LOCK \<noteq> 0 then Call_pthread_mutex_lock (mutexes w, n)
            else Call_pthread_mutex_unlock (mutexes w, n)]
    \<and> (mode AND CRYPTO_LOCK \<noteq> 0 \<and> ms ! nat n = Idle \<longrightarrow>
           LockingFunction mode n w =
             Inr (w\<lparr>heap := (heap w)(mutexes w \<mapsto> (k, ms[nat n := Locked])),
                    calls := calls w @ [Call_pthread_mutex_lock (mutexes w, n)]\<rparr>))
    \<and> (mode AND CRYPTO_LOCK = 0 \<and> ms ! nat n = Locked \<longrightarrow>
           LockingFunction mode n w =
             Inr (w\<lparr>heap := (heap w)(mutexes w \<mapsto> (k, ms[nat n := Idle])),
                    calls := calls w @ [Call_pthread_mutex_unlock (mutexes w, n)]\<rparr>))
    \<and> LockingFunction (mode XOR CRYPTO_READ) n w = LockingFunction mode n w
    \<and> LockingFunction (mode XOR CRYPTO_WRITE) n w = LockingFunction mode n w
    \<and> (\<forall>mode'. mode' AND CRYPTO_LOCK = mode AND CRYPTO_LOCK \<longrightarrow>
           LockingFunction mode' n w = LockingFunction mode n w)"
proof (intro conjI)
  from assms have at: "mutex_at w (mutexes w, n) = Some (ms ! nat n)"
    by (simp add: mutex_at_live)
  show "calls (world_of (LockingFunction mode n w)) = calls w @
           [if mode AND CRYPTO_LOCK \<noteq> 0 then Call_pthread_mutex_lock (mutexes w, n)
            else Call_pthread_mutex_unlock (mutexes w, n)]"
    using assms(1)
    by (cases "ms ! nat n")
       (simp_all add: LockingFunction_def pthread_mutex_lock_def pthread_mutex_unlock_def at
          discard_def world_of_def record_call_def set_mutex_def)
  show "mode AND CRYPTO_LOCK \<noteq> 0 \<and> ms ! nat n = Idle \<longrightarrow>
           LockingFunction mode n w =
             Inr (w\<lparr>heap := (heap w)(mutexes w \<mapsto> (k, ms[nat n := Locked])),
                    calls := calls w @ [Call_pthread_mutex_lock (mutexes w, n)]\<rparr>)"
    using assms(1)
    by (simp add: LockingFunction_def pthread_mutex_lock_def at discard_def record_call_def
        set_mutex_def)
  show "mode AND CRYPTO_LOCK = 0 \<and> ms ! nat n = Locked \<longrightarrow>
           LockingFunction mode n w =
             Inr (w\<lparr>heap := (heap w)(mutexes w \<mapsto> (k, ms[nat n := Idle])),
                    calls := calls w @ [Call_pthread_mutex_unlock (mutexes w, n)]\<rparr>)"
    using assms(1)
    by (simp add: LockingFunction_def pthread_mutex_unlock_def at discard_def record_call_def
        set_mutex_def)
  show "LockingFunction (mode XOR CRYPTO_READ) n w = LockingFunction mode n w"
    by (rule LockingFunction_cong) (rule lock_bit_flip_READ)
  show "LockingFunction (mode XOR CRYPTO_WRITE) n w = LockingFunction mode n w"
    by (rule LockingFunction_cong) (rule lock_bit_flip_WRITE)
  show "\<forall>mode'. mode' AND CRYPTO_LOCK = mode AND CRYPTO_LOCK \<longrightarrow>
           LockingFunction mode' n w = LockingFunction mode n w"
    by (blast intro: LockingFunction_cong)
qed

theorem LockingFunction_lock_bit_only_witness:
  "LockingFunction 9 1 world_ex = Inr world_locked \<and>
   LockingFunction 6 1 world_locked =
     Inr (world_locked\<lparr>heap := [100 \<mapsto> (Array_new, [Idle, Idle, Idle])],
            calls := calls world_locked @ [Call_pthread_mutex_unlock (100, 1)]\<rparr>) \<and>
   LockingFunction (9 XOR CRYPTO_READ) 1 world_ex = LockingFunction 9 1 world_ex \<and>
   LockingFunction (9 XOR CRYPTO_WRITE) 1 world_ex = LockingFunction 9 1 world_ex"
proof -
  have a: "(0::int) \<le> 1" "1 < numMutexes world_ex" "1 < numMutexes world_locked"
    by (simp_all add: world_ex_def world_locked_def)
  note lock = LockingFunction_lock_bit_only
    [OF world_ex_ready(3) _ a(1) a(2), of 9]
  note unlock = LockingFunction_lock_bit_only
    [OF world_locked_table a(1) a(3), of 6]
  from lock unlock show ?thesis
    by (simp add: CRYPTO_LOCK_def world_ex_table world_locked_def numeral_3_eq_3)
qed

text \<open>
  C5. A \<^verbatim>\<open>ClassInit\<close> that returns has allocated one table of N mutexes, all
  initialised, N being the answer of \<^verbatim>\<open>CRYPTO_num_locks()\<close>. A \<^verbatim>\<open>ClassDestroy\<close> that
  follows returns with the heap as it was before \<^verbatim>\<open>ClassInit\<close>. Over the two calls
  there is one \<^verbatim>\<open>new[]\<close> and one \<^verbatim>\<open>delete[]\<close> of the table, and for each mutex
  address one \<^verbatim>\<open>pthread_mutex_init\<close> and one \<^verbatim>\<open>pthread_mutex_destroy\<close> if it is a
  slot 0 to N-1 of the table, none otherwise.
\<close>

theorem ClassInit_ClassDestroy_pairing:
  assumes "ClassInit env w0 = Inr w1" and "heap w0 (new_result env) = None"
  shows "\<exists>w2 cycle. ClassDestroy env' w1 = Inr w2 \<and>
     heap w1 = (heap w0)(new_result env \<mapsto>
                  (Array_new, replicate (nat (CRYPTO_num_locks env)) Idle)) \<and>
     heap w2 = heap w0 \<and>
     calls w2 = calls w0 @ cycle \<and>
     count_list cycle (Call_new_array (CRYPTO_num_locks env) (new_result env)) = 1 \<and>
     count_list cycle (Call_delete_array (new_result env)) = 1 \<and>
     (\<forall>l. count_list cycle (Call_pthread_mutex_init l) =
            (if fst l = new_result env \<and> 0 \<le> snd l \<and> snd l < CRYPTO_num_locks env
             then 1 else 0)) \<and>
     (\<forall>l. count_list cycle (Call_pthread_mutex_destroy l) =
            (if fst l = new_result env \<and> 0 \<le> snd l \<and> snd l < CRYPTO_num_locks env
             then 1 else 0))"
proof -
  let ?N = "CRYPTO_num_locks env" and ?p = "new_result env"
  from assms(1) have ok: "init_ok env" and w1: "w1 = world_after_init env w0"
    by (simp_all add: ClassInit_Inr)
  let ?w2 = "world_after_destroy env' w1"
  define cycle where "cycle =
     [Call_SSL_load_error_strings, Call_SSL_library_init, Call_RAND_poll, Call_new_array ?N ?p] @
     map (\<lambda>j. Call_pthread_mutex_init (?p, j)) [0..?N - 1] @
     [Call_CRYPTO_THREADID_set_callback (Some Fn_SetThreadId),
      Call_CRYPTO_set_locking_callback (Some Fn_LockingFunction),
      Call_CRYPTO_set_dynlock_create_callback (Some Fn_DynCreateFunction),
      Call_CRYPTO_set_dynlock_lock_callback (Some Fn_DynLockFunction),
      Call_CRYPTO_set_dynlock_destroy_callback (Some Fn_DynDestroyFunction)] @
     cleanup_calls @
     map (\<lambda>j. Call_pthread_mutex_destroy (?p, j)) [0..?N - 1] @
     [Call_delete_array ?p] @ deregister_calls"
  have run: "ClassDestroy env' w1 = Inr ?w2" and h2: "heap ?w2 = heap w0"
    unfolding w1 using cycle_after_init [OF ok assms(2)] by simp_all
  have h1: "heap w1 = (heap w0)(?p \<mapsto> (Array_new, replicate (nat ?N) Idle))"
    by (simp add: w1 world_after_init_def)
  have c: "calls ?w2 = calls w0 @ cycle"
    by (simp add: w1 world_after_destroy_def world_after_init_def cycle_def)
  have n1: "count_list cycle (Call_new_array ?N ?p) = 1"
    by (simp add: cycle_def cleanup_calls_def deregister_calls_def
        count_other_in_init_calls count_other_in_destroy_calls)
  have n2: "count_list cycle (Call_delete_array ?p) = 1"
    by (simp add: cycle_def cleanup_calls_def deregister_calls_def
        count_other_in_init_calls count_other_in_destroy_calls)
  have n3: "count_list cycle (Call_pthread_mutex_init l) =
            (if fst l = ?p \<and> 0 \<le> snd l \<and> snd l < ?N then 1 else 0)" for l
    by (simp add: cycle_def cleanup_calls_def deregister_calls_def
        count_init_calls count_other_in_destroy_calls)
  have n4: "count_list cycle (Call_pthread_mutex_destroy l) =
            (if fst l = ?p \<and> 0 \<le> snd l \<and> snd l < ?N then 1 else 0)" for l
    by (simp add: cycle_def cleanup_calls_def deregister_calls_def
        count_destroy_calls count_other_in_init_calls)
  from run h1 h2 c n1 n2 n3 n4 show ?thesis by blast
qed

theorem ClassInit_ClassDestroy_pairing_witness:
  "ClassInit env_ex initial_world = Inr world_ex \<and>
   heap initial_world (new_result env_ex) = None \<and>
   (\<exists>w2 cycle. ClassDestroy env_ex world_ex = Inr w2 \<and>
      heap world_ex = [100 \<mapsto> (Array_new, [Idle, Idle, Idle])] \<and>
      heap w2 = Map.empty \<and>
      calls w2 = cycle \<and>
      count_list cycle (Call_new_array 3 100) = 1 \<and>
      count_list cycle (Call_delete_array 100) = 1 \<and>
      count_list cycle (Call_pthread_mutex_init (100, 2)) = 1 \<and>
      count_list cycle (Call_pthread_mutex_destroy (100, 2)) = 1 \<and>
      count_list cycle (Call_pthread_mutex_destroy (100, 3)) = 0)"
proof -
  note run = ClassInit_env_ex and fresh = initial_world_fresh [of "new_result env_ex"]
  from ClassInit_ClassDestroy_pairing [OF run fresh, of env_ex]
  obtain w2 cycle where "ClassDestroy env_ex world_ex = Inr w2"
    "heap w2 = heap initial_world" "calls w2 = calls initial_world @ cycle"
    "count_list cycle (Call_new_array (CRYPTO_num_locks env_ex) (new_result env_ex)) = 1"
    "count_list cycle (Call_delete_array (new_result env_ex)) = 1"
    "\<forall>l. count_list cycle (Call_pthread_mutex_init l) =
            (if fst l = new_result env_ex \<and> 0 \<le> snd l \<and> snd l < CRYPTO_num_locks env_ex
             then 1 else 0)"
    "\<forall>l. count_list cycle (Call_pthread_mutex_destroy l) =
            (if fst l = new_result env_ex \<and> 0 \<le> snd l \<and> snd l < CRYPTO_num_locks env_ex
             then 1 else 0)"
    by blast
  then show ?thesis
    using run fresh by (auto simp: env_ex_def initial_world_def world_ex_def)
qed

text \<open>
  C6. The claim fails on the code where \<^verbatim>\<open>pthread_mutex_init\<close> fails:
  \<^verbatim>\<open>DynCreateFunction\<close> returns the handle all the same (lines 131 and 132), and on that
  handle the sequence create, lock, unlock, destroy is no round trip. Here \<^verbatim>\<open>new\<close>
  answers address 200 and \<^verbatim>\<open>pthread_mutex_init\<close> answers 12: the lock of the handle
  is a lock of a mutex that nobody has initialised, and the record is still on the heap.
\<close>

theorem Dyn_round_trip_after_failed_init:
  "Dyn_round_trip env_dyn_init_fails initial_world =
     Inl (Mutex_misuse, record_call (Call_pthread_mutex_lock (200, 0)) world_dyn_uninit) \<and>
   heap (record_call (Call_pthread_mutex_lock (200, 0)) world_dyn_uninit) 200 =
     Some (Scalar_new, [Uninitialized])"
  by (simp add: Dyn_round_trip_def DynCreateFunction_def DynLockFunction_def
      new_dynlock_value_def env_dyn_init_fails_def world_dyn_uninit_def initial_world_def
      nullptr_def CRYPTO_LOCK_def pthread_mutex_init_def pthread_mutex_lock_def mutex_at_def
      discard_def record_call_def set_mutex_def)

text \<open>
  C7. The claim fails on the code where \<^verbatim>\<open>pthread_mutex_init\<close> fails:
  \<^verbatim>\<open>DynCreateFunction\<close> drops its return code (line 131) and returns the handle all the
  same, with a mutex that is not initialised; a lock on it is a misuse. Here
  \<^verbatim>\<open>new\<close> answers address 200 and \<^verbatim>\<open>pthread_mutex_init\<close> answers 12.
\<close>

theorem DynCreateFunction_ignores_init_failure:
  "DynCreateFunction env_dyn_init_fails initial_world = Inr (200, world_dyn_uninit) \<and>
   mutex_at world_dyn_uninit (200, 0) = Some Uninitialized \<and>
   DynLockFunction CRYPTO_LOCK 200 world_dyn_uninit =
     Inl (Mutex_misuse, record_call (Call_pthread_mutex_lock (200, 0)) world_dyn_uninit)"
  by (simp add: DynCreateFunction_def DynLockFunction_def new_dynlock_value_def
      env_dyn_init_fails_def world_dyn_uninit_def initial_world_def nullptr_def CRYPTO_LOCK_def
      pthread_mutex_init_def pthread_mutex_lock_def mutex_at_def discard_def record_call_def
      set_mutex_def)

text \<open>
  C8. On a table as \<^verbatim>\<open>ClassInit\<close> leaves it, and whatever codes
  \<^verbatim>\<open>pthread_mutex_destroy\<close> answers, \<^verbatim>\<open>ClassDestroy\<close> returns: it has logged one error
  for each slot whose destruction answered a nonzero code, in slot order, it has called
  \<^verbatim>\<open>pthread_mutex_destroy\<close> on every slot 0 to N-1, then \<^verbatim>\<open>delete[]\<close> on the table, then
  the five setters with null; the table is gone from the heap and the five callbacks are
  null.
\<close>

theorem ClassDestroy_continues_after_failed_destroy:
  assumes "mutexes w \<noteq> nullptr" and "0 \<le> numMutexes w"
    and "heap w (mutexes w) = Some (Array_new, replicate (nat (numMutexes w)) Idle)"
  shows "\<exists>w'. ClassDestroy env w = Inr w' \<and>
     logged w' = logged w @ [Log_debug ''unloading openssl''] @
       map (\<lambda>i. Log_error ''pthread_mutex_destroy() failed with return code %d\<newline>''
                   (mutex_destroy_ret env (mutexes w, i)))
         (filter (\<lambda>i. mutex_destroy_ret env (mutexes w, i) \<noteq> 0) [0..numMutexes w - 1]) \<and>
     calls w' = calls w @
       [Call_ERR_remove_thread_state, Call_ENGINE_cleanup, Call_ERR_free_strings,
        Call_EVP_cleanup, Call_CRYPTO_cleanup_all_ex_data,
        Call_SSL_COMP_get_compression_methods, Call_sk_SSL_COMP_free] @
       map (\<lambda>i. Call_pthread_mutex_destroy (mutexes w, i)) [0..numMutexes w - 1] @
       [Call_delete_array (mutexes w)] @
       [Call_CRYPTO_THREADID_set_callback None, Call_CRYPTO_set_locking_callback None,
        Call_CRYPTO_set_dynlock_create_callback None, Call_CRYPTO_set_dynlock_lock_callback None,
        Call_CRYPTO_set_dynlock_destroy_callback None] \<and>
     heap w' (mutexes w) = None \<and>
     registered w' = [None, None, None, None, None]"
proof -
  from assms have "table_ready w" by (simp add: table_ready_def)
  then have "ClassDestroy env w = Inr (world_after_destroy env w)"
    by (rule ClassDestroy_table_ready)
  then show ?thesis
    by (simp add: world_after_destroy_def cleanup_calls_def deregister_calls_def registered_def
        destroy_errors_def)
qed

theorem ClassDestroy_continues_after_failed_destroy_witness:
  "mutexes world_ex \<noteq> nullptr \<and> 0 \<le> numMutexes world_ex \<and>
   heap world_ex (mutexes world_ex) = Some (Array_new, replicate (nat (numMutexes world_ex)) Idle) \<and>
   mutex_destroy_ret env_destroy_fails (100, 1) = 16 \<and>
   (\<exists>w'. ClassDestroy env_destroy_fails world_ex = Inr w' \<and>
      logged w' = [Log_debug ''loaded openssl version: %s'', Log_debug ''unloading openssl'',
                   Log_error ''pthread_mutex_destroy() failed with return code %d\<newline>'' 16] \<and>
      calls w' = calls world_ex @
        [Call_ERR_remove_thread_state, Call_ENGINE_cleanup, Call_ERR_free_strings,
         Call_EVP_cleanup, Call_CRYPTO_cleanup_all_ex_data,
         Call_SSL_COMP_get_compression_methods, Call_sk_SSL_COMP_free,
         Call_pthread_mutex_destroy (100, 0), Call_pthread_mutex_destroy (100, 1),
         Call_pthread_mutex_destroy (100, 2), Call_delete_array 100,
         Call_CRYPTO_THREADID_set_callback None, Call_CRYPTO_set_locking_callback None,
         Call_CRYPTO_set_dynlock_create_callback None,
         Call_CRYPTO_set_dynlock_lock_callback None,
         Call_CRYPTO_set_dynlock_destroy_callback None] \<and>
      heap w' 100 = None \<and> registered w' = [None, None, None, None, None])"
proof -
  from ClassDestroy_continues_after_failed_destroy [OF world_ex_ready(1,2,3), of env_destroy_fails]
  obtain w' where "ClassDestroy env_destroy_fails world_ex = Inr w'"
    "logged w' = logged world_ex @ [Log_debug ''unloading openssl''] @
       map (\<lambda>i. Log_error ''pthread_mutex_destroy() failed with return code %d\<newline>''
                   (mutex_destroy_ret env_destroy_fails (mutexes world_ex, i)))
         (filter (\<lambda>i. mutex_destroy_ret env_destroy_fails (mutexes world_ex, i) \<noteq> 0)
            [0..numMutexes world_ex - 1])"
    "calls w' = calls world_ex @
       [Call_ERR_remove_thread_state, Call_ENGINE_cleanup, Call_ERR_free_strings,
        Call_EVP_cleanup, Call_CRYPTO_cleanup_all_ex_data,
        Call_SSL_COMP_get_compression_methods, Call_sk_SSL_COMP_free] @
       map (\<lambda>i. Call_pthread_mutex_destroy (mutexes world_ex, i)) [0..numMutexes world_ex - 1] @
       [Call_delete_array (mutexes world_ex)] @
       [Call_CRYPTO_THREADID_set_callback None, Call_CRYPTO_set_locking_callback None,
        Call_CRYPTO_set_dynlock_create_callback None, Call_CRYPTO_set_dynlock_lock_callback None,
        Call_CRYPTO_set_dynlock_destroy_callback None]"
    "heap w' (mutexes world_ex) = None"
    "registered w' = [None, None, None, None, None]"
    by blast
  moreover have "logged world_ex = [Log_debug ''loaded openssl version: %s'']"
    by (simp add: world_ex_def)
  ultimately show ?thesis
    using world_ex_ready(1,2,3)
    by (auto simp: world_ex_table(2,3) env_destroy_fails_def upto_0_2)
qed

text \<open>
  C9. \<^verbatim>\<open>LockingFunction\<close> does not test the slot index. With a live table of
  \<^verbatim>\<open>numMutexes\<close> slots, an index from 0 to \<^verbatim>\<open>numMutexes\<close> - 1 addresses a mutex of the
  table, and the call never ends in an access out of bounds. An index outside that range
  makes it hand \<^verbatim>\<open>&OpenSSL::mutexes[n]\<close>, an address outside the table, to pthreads:
  the run ends in the undefined access, with the world untouched (nothing logged, nothing
  thrown).
\<close>

theorem LockingFunction_no_bounds_check:
  assumes "heap w (mutexes w) = Some (k, ms)" and "length ms = nat (numMutexes w)"
  shows "(0 \<le> n \<and> n < numMutexes w \<longrightarrow>
            mutex_at w (mutexes w, n) = Some (ms ! nat n) \<and>
            (\<forall>w'. LockingFunction mode n w \<noteq> Inl (Out_of_bounds, w')))
       \<and> (n < 0 \<or> numMutexes w \<le> n \<longrightarrow>
            LockingFunction mode n w = Inl (Out_of_bounds, w))"
proof (intro conjI impI)
  assume r: "0 \<le> n \<and> n < numMutexes w"
  with assms show at: "mutex_at w (mutexes w, n) = Some (ms ! nat n)"
    by (simp add: mutex_at_live)
  show "\<forall>w'. LockingFunction mode n w \<noteq> Inl (Out_of_bounds, w')"
    by (cases "ms ! nat n")
       (simp_all add: LockingFunction_def pthread_mutex_lock_def pthread_mutex_unlock_def at
          discard_def)
next
  assume "n < 0 \<or> numMutexes w \<le> n"
  with assms have "mutex_at w (mutexes w, n) = None"
    by (auto simp: mutex_at_def)
  then show "LockingFunction mode n w = Inl (Out_of_bounds, w)"
    by (simp add: LockingFunction_def pthread_mutex_lock_def pthread_mutex_unlock_def discard_def)
qed

theorem LockingFunction_no_bounds_check_witness:
  "heap world_ex (mutexes world_ex) = Some (Array_new, [Idle, Idle, Idle]) \<and>
   length [Idle, Idle, Idle] = nat (numMutexes world_ex) \<and>
   mutex_at world_ex (100, 2) = Some Idle \<and>
   LockingFunction CRYPTO_LOCK 2 world_ex \<noteq> Inl (Out_of_bounds, world_ex) \<and>
   LockingFunction CRYPTO_LOCK 3 world_ex = Inl (Out_of_bounds, world_ex) \<and>
   LockingFunction CRYPTO_UNLOCK (- 1) world_ex = Inl (Out_of_bounds, world_ex)"
proof -
  note t = world_ex_table(1) world_ex_ready(4)
  from LockingFunction_no_bounds_check [OF t, of 2 CRYPTO_LOCK]
       LockingFunction_no_bounds_check [OF t, of 3 CRYPTO_LOCK]
       LockingFunction_no_bounds_check [OF t, of "- 1" CRYPTO_UNLOCK]
  show ?thesis using t by (simp add: world_ex_table(2,3))
qed

text \<open>
  C10. When the static attributes have their declared values (\<^verbatim>\<open>mutexes\<close> null,
  \<^verbatim>\<open>numMutexes\<close> zero), as before any \<^verbatim>\<open>ClassInit\<close>, \<^verbatim>\<open>ClassDestroy\<close> returns with
  the heap unchanged after the library cleanup calls and the five setters only: no
  \<^verbatim>\<open>pthread_mutex_destroy\<close> and no \<^verbatim>\<open>delete[]\<close> is among its calls.
\<close>

theorem ClassDestroy_without_ClassInit:
  assumes "mutexes w = nullptr" and "numMutexes w = 0"
  shows "\<exists>w'. ClassDestroy env w = Inr w' \<and> heap w' = heap w
           \<and> mutexes w' = nullptr \<and> numMutexes w' = 0
           \<and> calls w' = calls w @
               [Call_ERR_remove_thread_state, Call_ENGINE_cleanup, Call_ERR_free_strings,
                Call_EVP_cleanup, Call_CRYPTO_cleanup_all_ex_data,
                Call_SSL_COMP_get_compression_methods, Call_sk_SSL_COMP_free,
                Call_CRYPTO_THREADID_set_callback None, Call_CRYPTO_set_locking_callback None,
                Call_CRYPTO_set_dynlock_create_callback None,
                Call_CRYPTO_set_dynlock_lock_callback None,
                Call_CRYPTO_set_dynlock_destroy_callback None]"
  using assms
  by (simp add: destroy_loop_done ClassDestroy_def Let_def MS_DEBUG_def record_call_def
      CRYPTO_THREADID_set_callback_def CRYPTO_set_locking_callback_def
      CRYPTO_set_dynlock_create_callback_def CRYPTO_set_dynlock_lock_callback_def
      CRYPTO_set_dynlock_destroy_callback_def)

theorem ClassDestroy_without_ClassInit_witness:
  "mutexes initial_world = nullptr \<and> numMutexes initial_world = 0 \<and>
   (\<exists>w'. ClassDestroy env_ex initial_world = Inr w' \<and> heap w' = Map.empty \<and> calls w' = 
               [Call_ERR_remove_thread_state, Call_ENGINE_cleanup, Call_ERR_free_strings,
                Call_EVP_cleanup, Call_CRYPTO_cleanup_all_ex_data,
                Call_SSL_COMP_get_compression_methods, Call_sk_SSL_COMP_free,
                Call_CRYPTO_THREADID_set_callback None, Call_CRYPTO_set_locking_callback None,
                Call_CRYPTO_set_dynlock_create_callback None,
                Call_CRYPTO_set_dynlock_lock_callback None,
                Call_CRYPTO_set_dynlock_destroy_callback None])"
proof -
  have a: "mutexes initial_world = nullptr" and b: "numMutexes initial_world = 0"
    by (simp_all add: initial_world_def)
  from ClassDestroy_without_ClassInit [OF a b, of env_ex] obtain w' where
    "ClassDestroy env_ex initial_world = Inr w'" "heap w' = heap initial_world"
    "calls w' = calls initial_world @ 
               [Call_ERR_remove_thread_state, Call_ENGINE_cleanup, Call_ERR_free_strings,
                Call_EVP_cleanup, Call_CRYPTO_cleanup_all_ex_data,
                Call_SSL_COMP_get_compression_methods, Call_sk_SSL_COMP_free,
                Call_CRYPTO_THREADID_set_callback None, Call_CRYPTO_set_locking_callback None,
                Call_CRYPTO_set_dynlock_create_callback None,
                Call_CRYPTO_set_dynlock_lock_callback None,
                Call_CRYPTO_set_dynlock_destroy_callback None]" by blast
  then show ?thesis using a b by (simp add: initial_world_def)
qed

end
